theory Spec2Isabelle
  imports Complex_Main "HOL-Library.AList"
begin

text \<open>
  An ACMI (Tacview) flight recording is a text of records, one per line: global
  properties, time markers, entity rows and entity removals. The parser of this
  repository (packages/lib/src/parser.ts) scans the bytes of a file into logical lines and
  decodes them into an \<^verbatim>\<open>AcmiData\<close>: a list of frames, each the scene at a time
  stamp, and a table of entities. \<^verbatim>\<open>AcmiData.createSampledTrajectories\<close>
  (acmiData.ts) samples the frames into one trajectory per entity, and the trajectory
  (trajectory.ts) can synthesise orientations, smoothing the roll. This theory embeds
  these functions, as they are written, and proves what the specification says of them or
  shows where they leave it.
\<close>

section \<open>Text: byte buffers and decoded strings\<close>

text \<open>
  The parser reads a \<^verbatim>\<open>Uint8Array\<close> and decodes slices of it with a UTF-8
  \<^verbatim>\<open>TextDecoder\<close>. A byte is a \<^typ>\<open>char\<close>, a buffer a \<^typ>\<open>string\<close>, and a
  decoded JavaScript string is represented by the bytes it was decoded from: every
  character the parser looks for (comma, equals sign, backslash, \<^verbatim>\<open>#\<close>, \<^verbatim>\<open>-\<close>,
  \<^verbatim>\<open>|\<close>, \<^verbatim>\<open>+\<close>, slash, CR, LF) is ASCII, and in UTF-8 an ASCII byte never occurs
  inside the encoding of another character. The three places where the decoded text is
  not read byte by byte are written out: the decoder drops one leading byte order mark,
  \<^verbatim>\<open>trim\<close> removes Unicode white space, and the \<^verbatim>\<open>.\<close> of a regular expression
  stops at U+2028 and U+2029 as well as at CR and LF. An ill-formed byte sequence, which
  the decoder would replace by U+FFFD, is kept as it is inside a value.
\<close>

type_synonym bytes = string

definition CR :: char where
  "CR = CHR 0x0D"

definition LF :: char where
  "LF = CHR 0x0A"

definition BOM :: string where
  "BOM = [CHR 0xEF, CHR 0xBB, CHR 0xBF]"

text \<open>\<^verbatim>\<open>s.startsWith(p)\<close>, \<^verbatim>\<open>s.endsWith(p)\<close>, \<^verbatim>\<open>s.indexOf(c)\<close> (\<open>None\<close> for -1),
  \<^verbatim>\<open>xs.slice(b, e)\<close> for \<open>0 \<le> b\<close> and \<open>0 \<le> e\<close>, and \<^verbatim>\<open>s.split(c)\<close>.\<close>

definition startsWith :: "string \<Rightarrow> string \<Rightarrow> bool" where
  "startsWith s p = (take (length p) s = p)"

definition endsWith :: "string \<Rightarrow> string \<Rightarrow> bool" where
  "endsWith s p = (length p \<le> length s \<and> drop (length s - length p) s = p)"

fun indexOf :: "string \<Rightarrow> char \<Rightarrow> nat option" where
  "indexOf [] c = None"
| "indexOf (x # xs) c = (if x = c then Some 0 else map_option Suc (indexOf xs c))"

definition slice :: "'a list \<Rightarrow> nat \<Rightarrow> nat \<Rightarrow> 'a list" where
  "slice xs b e = take (e - b) (drop b xs)"

fun consHead :: "char \<Rightarrow> string list \<Rightarrow> string list" where
  "consHead x [] = [[x]]"
| "consHead x (t # ts) = (x # t) # ts"

fun splitOn :: "char \<Rightarrow> string \<Rightarrow> string list" where
  "splitOn c [] = [[]]"
| "splitOn c (x # xs) = (if x = c then [] # splitOn c xs else consHead x (splitOn c xs))"

text \<open>\<^verbatim>\<open>s.split(/(?<!\\),/)\<close>: the separator is a comma that no backslash precedes. The
  flag says whether the character before the one read is a backslash.\<close>

fun splitProperties :: "bool \<Rightarrow> string \<Rightarrow> string list" where
  "splitProperties esc [] = [[]]"
| "splitProperties esc (x # xs) =
     (if x = CHR '','' \<and> \<not> esc then [] # splitProperties False xs
      else consHead x (splitProperties (x = CHR 0x5C) xs))"

text \<open>\<^verbatim>\<open>new TextDecoder().decode(bytes)\<close>: UTF-8, one leading byte order mark dropped.\<close>

definition stripBOM :: "string \<Rightarrow> string" where
  "stripBOM x = (if startsWith x BOM then drop 3 x else x)"

definition decode :: "bytes \<Rightarrow> string" where
  "decode b = stripBOM b"

text \<open>\<^verbatim>\<open>s.trim().length === 0\<close>: the string holds nothing but white space and line
  terminators (TAB, LF, VT, FF, CR, SP, U+00A0, U+1680, U+2000 to U+200A, U+2028,
  U+2029, U+202F, U+205F, U+3000, U+FEFF), read in their UTF-8 encoding.\<close>

definition asciiSpace :: "char \<Rightarrow> bool" where
  "asciiSpace c = (c = CHR 0x09 \<or> c = CHR 0x0A \<or> c = CHR 0x0B \<or> c = CHR 0x0C \<or> c = CHR 0x0D \<or> c = CHR 0x20)"

definition space3 :: "char \<Rightarrow> char \<Rightarrow> char \<Rightarrow> bool" where
  "space3 a b c =
     ((a = CHR 0xE1 \<and> b = CHR 0x9A \<and> c = CHR 0x80) \<or>
      (a = CHR 0xE2 \<and> b = CHR 0x80 \<and> (0x80::nat) \<le> of_char c \<and> (of_char c :: nat) \<le> 0x8A) \<or>
      (a = CHR 0xE2 \<and> b = CHR 0x80 \<and> (c = CHR 0xA8 \<or> c = CHR 0xA9 \<or> c = CHR 0xAF)) \<or>
      (a = CHR 0xE2 \<and> b = CHR 0x81 \<and> c = CHR 0x9F) \<or>
      (a = CHR 0xE3 \<and> b = CHR 0x80 \<and> c = CHR 0x80) \<or>
      (a = CHR 0xEF \<and> b = CHR 0xBB \<and> c = CHR 0xBF))"

fun trimIsEmpty :: "string \<Rightarrow> bool" where
  "trimIsEmpty [] = True"
| "trimIsEmpty [a] = asciiSpace a"
| "trimIsEmpty [a, b] =
     (if asciiSpace a then trimIsEmpty [b] else a = CHR 0xC2 \<and> b = CHR 0xA0)"
| "trimIsEmpty (a # b # c # cs) =
     (if asciiSpace a then trimIsEmpty (b # c # cs)
      else if a = CHR 0xC2 \<and> b = CHR 0xA0 then trimIsEmpty (c # cs)
      else space3 a b c \<and> trimIsEmpty cs)"

text \<open>The header pattern
  \<^verbatim>\<open>/^(BOM)?FileType=(?<type>.*)\r?\nFileVersion=(?<version>.*)\r?\n/\<close>,
  where (BOM) stands for the escape of U+FEFF.
  A \<^verbatim>\<open>.\<close> matches any character but LF, CR, U+2028 and U+2029, so \<^verbatim>\<open>(.*)\<close> runs
  to the first of them, and the field matches only when that is the \<^verbatim>\<open>\r?\n\<close>.\<close>

fun hasLineSeparator :: "string \<Rightarrow> bool" where
  "hasLineSeparator (a # b # c # cs) =
     ((a = CHR 0xE2 \<and> b = CHR 0x80 \<and> (c = CHR 0xA8 \<or> c = CHR 0xA9)) \<or> hasLineSeparator (b # c # cs))"
| "hasLineSeparator cs = False"

definition dot :: "char \<Rightarrow> bool" where
  "dot c = (c \<noteq> CR \<and> c \<noteq> LF)"

definition matchField :: "string \<Rightarrow> string \<Rightarrow> (string \<times> string) option" where
  "matchField key s =
     (if startsWith s key then
        (let r = drop (length key) s; v = takeWhile dot r; r' = dropWhile dot r
         in if hasLineSeparator v then None
            else if startsWith r' [CR, LF] then Some (v, drop 2 r')
            else if startsWith r' [LF] then Some (v, drop 1 r')
            else None)
      else None)"

definition headerFields :: "string \<Rightarrow> (string \<times> string) option" where
  "headerFields s =
     (case matchField ''FileType='' s of
        None \<Rightarrow> None
      | Some (ty, r) \<Rightarrow>
          (case matchField ''FileVersion='' r of
             None \<Rightarrow> None
           | Some (ver, r') \<Rightarrow> Some (ty, ver)))"

definition headerPattern :: "string \<Rightarrow> (string \<times> string) option" where
  "headerPattern s = headerFields (stripBOM s)"

section \<open>The platform\<close>

text \<open>
  What the parser takes from JavaScript and from the dayjs and unzipit libraries is a
  parameter of the model. \<open>'n\<close> is the type of JavaScript numbers, read up to
  SameValueZero (the equality of \<^verbatim>\<open>Map\<close> keys: one NaN, and -0 the same as +0), so
  that equality in HOL is the equality of keys; \<open>strictEq\<close> is \<^verbatim>\<open>===\<close>, which \<^verbatim>\<open>!==\<close>
  and \<^verbatim>\<open>indexOf\<close> use and which NaN fails against itself. A \<^verbatim>\<open>Dayjs\<close> is its time
  value in milliseconds, \<open>None\<close> when the date is invalid (\<^verbatim>\<open>dayjs(null)\<close>).
\<close>

type_synonym Dayjs = "int option"

record 'n platform =
  num0 :: 'n
  num1 :: 'n
  toNumber :: "string \<Rightarrow> 'n"
  parseInt16 :: "string \<Rightarrow> 'n"
  numAdd :: "'n \<Rightarrow> 'n \<Rightarrow> 'n"
  strictEq :: "'n \<Rightarrow> 'n \<Rightarrow> bool"
  dayjs :: "string \<Rightarrow> Dayjs"
  addSeconds :: "Dayjs \<Rightarrow> 'n \<Rightarrow> Dayjs"
  unzip :: "bytes \<Rightarrow> bytes list option"

text \<open>\<open>num0\<close> and \<open>num1\<close> are the literals \<^verbatim>\<open>0\<close> and \<^verbatim>\<open>1\<close>; \<open>toNumber s\<close> is
  \<^verbatim>\<open>+s\<close>; \<open>parseInt16 s\<close> is \<^verbatim>\<open>parseInt(s, 16)\<close>; \<open>numAdd\<close> is \<^verbatim>\<open>+\<close> on two
  numbers; \<open>dayjs s\<close> is \<^verbatim>\<open>dayjs(s)\<close>; \<open>addSeconds d x\<close> is \<^verbatim>\<open>d.add(x, "second")\<close>;
  \<open>unzip b\<close> lists the contents of the archive's entries, \<open>None\<close> when the library
  throws.\<close>

definition indexOfNum :: "'n platform \<Rightarrow> 'n list \<Rightarrow> 'n \<Rightarrow> bool" where
  \<comment> \<open>\<^verbatim>\<open>ids.indexOf(id) >= 0\<close>\<close>
  "indexOfNum P ids i = list_ex (\<lambda>x. strictEq P x i) ids"

section \<open>The data model (acmiData.ts)\<close>

record AcmiHeader =
  fileType :: string
  fileVersion :: string

record TimeSpan =
  start :: Dayjs
  end' :: Dayjs

definition newTimeSpan :: TimeSpan where
  "newTimeSpan = \<lparr>start = None, end' = None\<rparr>"

definition isValidTimeSpan :: "TimeSpan \<Rightarrow> bool" where
  "isValidTimeSpan t = (start t \<noteq> None \<and> end' t \<noteq> None)"

record 'n GlobalProperties =
  referenceTime :: Dayjs
  dataSource :: "string option"
  dataRecorder :: "string option"
  recordingTime :: "Dayjs option"
  author :: "string option"
  title :: "string option"
  category :: "string option"
  briefing :: "string option"
  debriefing :: "string option"
  comments :: "string option"
  referenceLongitude :: "'n option"
  referenceLatitude :: "'n option"
  additionalProps :: "(string \<times> string) list option"

definition newGlobalProperties :: "'n GlobalProperties" where
  "newGlobalProperties =
     \<lparr>referenceTime = None, dataSource = None, dataRecorder = None, recordingTime = None,
      author = None, title = None, category = None, briefing = None, debriefing = None,
      comments = None, referenceLongitude = None, referenceLatitude = None,
      additionalProps = None\<rparr>"

record 'n EntityProps =
  id' :: 'n
  timeSpan :: TimeSpan
  name :: "string option"
  types :: "string list option"
  callsign :: "string option"
  pilot :: "string option"
  group :: "string option"
  country :: "string option"
  coalition :: "string option"
  color :: "string option"

definition newEntityProps :: "'n \<Rightarrow> 'n EntityProps" where
  "newEntityProps i =
     \<lparr>id' = i, timeSpan = newTimeSpan, name = None, types = None, callsign = None,
      pilot = None, group = None, country = None, coalition = None, color = None\<rparr>"

record 'n ITransform =
  longitude :: 'n
  latitude :: 'n
  altitude :: 'n
  roll :: "'n option"
  pitch :: "'n option"
  yaw :: "'n option"

text \<open>A \<^verbatim>\<open>Map\<close> is an association list in insertion order: \<^verbatim>\<open>get\<close> is
  \<^const>\<open>map_of\<close>, \<^verbatim>\<open>set\<close> is \<^const>\<open>AList.update\<close> (a present key keeps its place, a new
  one goes last), \<^verbatim>\<open>delete\<close> is \<^const>\<open>AList.delete\<close>.\<close>

type_synonym 'n Scene = "('n \<times> 'n ITransform) list"

record 'n Frame =
  timeStamp :: 'n
  scene :: "'n Scene"

definition newFrame :: "'n \<Rightarrow> 'n Scene \<Rightarrow> 'n Frame" where
  \<comment> \<open>\<^verbatim>\<open>new Frame(timeStamp, scene)\<close> copies the scene; \<^verbatim>\<open>new Frame(timeStamp)\<close> is
     \<open>newFrame timeStamp []\<close>\<close>
  "newFrame t sc = \<lparr>timeStamp = t, scene = sc\<rparr>"

record 'n AcmiData =
  isValid :: bool
  header :: AcmiHeader
  globalProperties :: "'n GlobalProperties"
  timeSpan :: TimeSpan
  entities :: "('n \<times> 'n EntityProps) list"
  frames :: "'n Frame list"

definition newAcmiData :: "'n AcmiData" where
  "newAcmiData =
     \<lparr>isValid = True, header = \<lparr>fileType = [], fileVersion = []\<rparr>,
      globalProperties = newGlobalProperties, timeSpan = newTimeSpan, entities = [],
      frames = []\<rparr>"

section \<open>The parser (parser.ts)\<close>

text \<open>
  A \<^verbatim>\<open>TypeError\<close> is what reading \<^verbatim>\<open>.length\<close> of \<^verbatim>\<open>undefined\<close> throws; the other
  error is the string \<^verbatim>\<open>_unzip\<close> throws. Neither is caught: the promise that
  \<^verbatim>\<open>parse\<close> returns is then never resolved.
\<close>

datatype error = TypeError | InvalidCompressedFile

record 'n AcmiParser =
  currentLine :: string
  currentTimeStamp :: 'n
  currentFrame :: "'n Frame"
  destroyedIds :: "'n list"
  filteredIds :: "'n list"
  data :: "'n AcmiData"
  filter' :: "string list"
  refLat :: 'n
  refLong :: 'n

definition newAcmiParser :: "'n platform \<Rightarrow> 'n AcmiParser" where
  "newAcmiParser P =
     \<lparr>currentLine = [], currentTimeStamp = num0 P, currentFrame = newFrame (num0 P) [],
      destroyedIds = [], filteredIds = [], data = newAcmiData, filter' = [],
      refLat = num0 P, refLong = num0 P\<rparr>"

definition acmiVersions :: "string list" where
  "acmiVersions = [''2.1'', ''2.2'']"

definition acmiType :: string where
  "acmiType = ''text/acmi/tacview''"

definition isValidVersion :: "'n AcmiParser \<Rightarrow> bool" where
  "isValidVersion this =
     (find (\<lambda>version. version = fileVersion (header (data this))) acmiVersions \<noteq> None)"

definition isValidType :: "'n AcmiParser \<Rightarrow> bool" where
  "isValidType this = (fileType (header (data this)) = acmiType)"

definition parseHeader :: "bytes \<Rightarrow> 'n AcmiParser \<Rightarrow> 'n AcmiParser" where
  "parseHeader buffer this =
     (case headerPattern (decode (slice buffer 0 64)) of
        None \<Rightarrow> this
      | Some (ty, ver) \<Rightarrow>
          (let this1 = this\<lparr>data := (data this)\<lparr>header := \<lparr>fileType = ty, fileVersion = ver\<rparr>\<rparr>\<rparr>
           in this1\<lparr>data := (data this1)\<lparr>isValid := (isValidType this1 \<and> isValidVersion this1)\<rparr>\<rparr>))"

subsection \<open>The record decoder \<^verbatim>\<open>_parseLine\<close>, branch by branch\<close>

definition invalidate :: "'n AcmiParser \<Rightarrow> 'n AcmiParser" where
  \<comment> \<open>\<^verbatim>\<open>data.isValid = false\<close>\<close>
  "invalidate this = this\<lparr>data := (data this)\<lparr>isValid := False\<rparr>\<rparr>"

definition putGlobalProperties :: "'n GlobalProperties \<Rightarrow> 'n AcmiParser \<Rightarrow> 'n AcmiParser" where
  "putGlobalProperties g this = this\<lparr>data := (data this)\<lparr>globalProperties := g\<rparr>\<rparr>"

text \<open>The body of \<^verbatim>\<open>props.forEach\<close> for a global row (\<^verbatim>\<open>0,...\<close>).\<close>

definition setGlobalProperty :: "'n platform \<Rightarrow> string \<Rightarrow> 'n AcmiParser \<Rightarrow> 'n AcmiParser" where
  "setGlobalProperty P prop this =
     (case indexOf prop CHR ''='' of
        None \<Rightarrow> invalidate this
      | Some equalPos \<Rightarrow>
          (let propName = slice prop 0 equalPos;
               propValue = drop (equalPos + 1) prop;
               globProp = globalProperties (data this)
           in if propName = ''DataSource'' then
                putGlobalProperties (globProp\<lparr>dataSource := Some propValue\<rparr>) this
              else if propName = ''DataRecorder'' then
                putGlobalProperties (globProp\<lparr>dataRecorder := Some propValue\<rparr>) this
              else if propName = ''ReferenceTime'' then
                putGlobalProperties (globProp\<lparr>referenceTime := dayjs P propValue\<rparr>) this
              else if propName = ''RecordingTime'' then
                putGlobalProperties (globProp\<lparr>recordingTime := Some (dayjs P propValue)\<rparr>) this
              else if propName = ''Author'' then
                putGlobalProperties (globProp\<lparr>author := Some propValue\<rparr>) this
              else if propName = ''Title'' then
                putGlobalProperties (globProp\<lparr>title := Some propValue\<rparr>) this
              else if propName = ''Category'' then
                putGlobalProperties (globProp\<lparr>category := Some propValue\<rparr>) this
              else if propName = ''Briefing'' then
                putGlobalProperties (globProp\<lparr>briefing := Some propValue\<rparr>) this
              else if propName = ''Debriefing'' then
                putGlobalProperties (globProp\<lparr>debriefing := Some propValue\<rparr>) this
              else if propName = ''Comments'' then
                putGlobalProperties (globProp\<lparr>comments := Some propValue\<rparr>) this
              else if propName = ''ReferenceLongitude'' then
                (putGlobalProperties
                   (globProp\<lparr>referenceLongitude := Some (toNumber P propValue)\<rparr>) this)
                 \<lparr>refLong := toNumber P propValue\<rparr>
              else if propName = ''ReferenceLatitude'' then
                (putGlobalProperties
                   (globProp\<lparr>referenceLatitude := Some (toNumber P propValue)\<rparr>) this)
                 \<lparr>refLat := toNumber P propValue\<rparr>
              else
                putGlobalProperties
                  (globProp\<lparr>additionalProps :=
                     Some (AList.update propName propValue
                       (case additionalProps globProp of None \<Rightarrow> [] | Some m \<Rightarrow> m))\<rparr>) this))"

text \<open>A time marker (\<^verbatim>\<open>#...\<close>): the pending removals are applied to the current frame,
  then a new timestamp pushes that frame and opens the next one on a copy of its scene.\<close>

definition timeMarker :: "'n platform \<Rightarrow> string \<Rightarrow> 'n AcmiParser \<Rightarrow> 'n AcmiParser" where
  "timeMarker P line this =
     (let this1 =
            (if destroyedIds this \<noteq> [] then
               this\<lparr>currentFrame := (currentFrame this)
                      \<lparr>scene := fold AList.delete (destroyedIds this) (scene (currentFrame this))\<rparr>,
                    destroyedIds := []\<rparr>
             else this);
          currentFrame0 = currentFrame this1;
          newTimeStamp = toNumber P (drop 1 line)
      in if \<not> strictEq P newTimeStamp (currentTimeStamp this1) then
           this1\<lparr>data := (data this1)\<lparr>frames := frames (data this1) @ [currentFrame0]\<rparr>,
                 currentTimeStamp := newTimeStamp,
                 currentFrame := newFrame newTimeStamp (scene currentFrame0)\<rparr>
         else this1)"

text \<open>\<^verbatim>\<open>referenceTime.add(this._currentTimeStamp, "second")\<close>\<close>

definition currentTime :: "'n platform \<Rightarrow> 'n AcmiParser \<Rightarrow> Dayjs" where
  "currentTime P this =
     addSeconds P (referenceTime (globalProperties (data this))) (currentTimeStamp this)"

definition putEntity :: "'n \<Rightarrow> 'n EntityProps \<Rightarrow> 'n AcmiParser \<Rightarrow> 'n AcmiParser" where
  "putEntity i e this =
     this\<lparr>data := (data this)\<lparr>entities := AList.update i e (entities (data this))\<rparr>\<rparr>"

text \<open>An entity removal (\<^verbatim>\<open>-id\<close>). The entity is an object of the map, so setting its
  end is an update of the map at its key.\<close>

definition removeEntity :: "'n platform \<Rightarrow> string \<Rightarrow> 'n AcmiParser \<Rightarrow> 'n AcmiParser" where
  "removeEntity P line this =
     (let i = parseInt16 P (drop 1 line);
          this1 =
            (case map_of (entities (data this)) i of
               None \<Rightarrow> this
             | Some entityProps \<Rightarrow>
                 putEntity i
                   (entityProps\<lparr>EntityProps.timeSpan :=
                      (EntityProps.timeSpan entityProps)\<lparr>end' := currentTime P this\<rparr>\<rparr>) this)
      in if indexOfNum P (filteredIds this1) i then
           this1\<lparr>destroyedIds := destroyedIds this1 @ [i]\<rparr>
         else this1)"

text \<open>The body of \<^verbatim>\<open>props.forEach\<close> for an entity row: it writes the entity in hand
  and may clear \<^verbatim>\<open>data.isValid\<close>.\<close>

definition setEntityProperty ::
  "'n platform \<Rightarrow> string \<Rightarrow> 'n EntityProps \<times> 'n AcmiParser \<Rightarrow> 'n EntityProps \<times> 'n AcmiParser" where
  "setEntityProperty P prop = (\<lambda>(entityProps, this).
     (case indexOf prop CHR ''='' of
        None \<Rightarrow> (entityProps, invalidate this)
      | Some equalPos \<Rightarrow>
          (let propName = slice prop 0 equalPos;
               propValue = drop (equalPos + 1) prop
           in if propName = ''Name'' then (entityProps\<lparr>name := Some propValue\<rparr>, this)
              else if propName = ''Type'' then
                (entityProps\<lparr>types := Some (splitOn CHR ''+'' propValue)\<rparr>, this)
              else if propName = ''CallSign'' then (entityProps\<lparr>callsign := Some propValue\<rparr>, this)
              else if propName = ''Pilot'' then (entityProps\<lparr>pilot := Some propValue\<rparr>, this)
              else if propName = ''Group'' then (entityProps\<lparr>group := Some propValue\<rparr>, this)
              else if propName = ''Country'' then (entityProps\<lparr>country := Some propValue\<rparr>, this)
              else if propName = ''Coalition'' then
                (entityProps\<lparr>coalition := Some propValue\<rparr>, this)
              else if propName = ''Color'' then (entityProps\<lparr>color := Some propValue\<rparr>, this)
              else if propName = ''destroyed'' then
                (if strictEq P (toNumber P propValue) (num1 P) then
                   (entityProps\<lparr>EntityProps.timeSpan :=
                      (EntityProps.timeSpan entityProps)\<lparr>end' := currentTime P this\<rparr>\<rparr>, this)
                 else (entityProps, this))
              else (entityProps, this))))"

text \<open>The filter decision for a new entity.\<close>

definition keepEntity :: "string list \<Rightarrow> 'n EntityProps \<Rightarrow> bool" where
  "keepEntity flt entityProps =
     (if flt \<noteq> [] then
        (case types entityProps of
           Some ts \<Rightarrow> list_all (\<lambda>type. type \<notin> set flt) ts
         | None \<Rightarrow> ''Untyped'' \<notin> set flt)
      else True)"

text \<open>The coordinates of a \<^verbatim>\<open>T=\<close> value, split on \<^verbatim>\<open>|\<close>, written into the transform.
  With one or two tokens the code reads \<^verbatim>\<open>coords[1].length\<close> or
  \<^verbatim>\<open>coords[2].length\<close> of \<^verbatim>\<open>undefined\<close> and throws.\<close>

definition decodePosition :: "'n platform \<Rightarrow> 'n \<Rightarrow> 'n \<Rightarrow> string list \<Rightarrow> 'n ITransform \<Rightarrow> 'n ITransform" where
  "decodePosition P refLong0 refLat0 coords transform =
     (let t1 = (if coords ! 0 \<noteq> [] then
                  transform\<lparr>longitude := numAdd P refLong0 (toNumber P (coords ! 0))\<rparr>
                else transform);
          t2 = (if coords ! 1 \<noteq> [] then
                  t1\<lparr>latitude := numAdd P refLat0 (toNumber P (coords ! 1))\<rparr>
                else t1)
      in if coords ! 2 \<noteq> [] then t2\<lparr>altitude := toNumber P (coords ! 2)\<rparr> else t2)"

definition decodeCoords ::
  "'n platform \<Rightarrow> 'n \<Rightarrow> 'n \<Rightarrow> string list \<Rightarrow> 'n ITransform \<Rightarrow> error + 'n ITransform" where
  "decodeCoords P refLong0 refLat0 coords transform =
     (if length coords \<le> 5 then
        (if length coords < 3 then Inl TypeError
         else Inr (decodePosition P refLong0 refLat0 coords transform))
      else
        (let t3 = decodePosition P refLong0 refLat0 coords transform;
             t4 = (if coords ! 3 \<noteq> [] then t3\<lparr>roll := Some (toNumber P (coords ! 3))\<rparr> else t3);
             t5 = (if coords ! 4 \<noteq> [] then t4\<lparr>pitch := Some (toNumber P (coords ! 4))\<rparr> else t4)
         in Inr (if coords ! 5 \<noteq> [] then t5\<lparr>yaw := Some (toNumber P (coords ! 5))\<rparr> else t5)))"

text \<open>The transform the decoding starts from: the entity's transform in the current
  scene, or zeros and no angles.\<close>

definition startTransform :: "'n platform \<Rightarrow> 'n ITransform option \<Rightarrow> 'n ITransform" where
  "startTransform P currentTransform =
     \<lparr>longitude = (case currentTransform of None \<Rightarrow> num0 P | Some t \<Rightarrow> longitude t),
      latitude = (case currentTransform of None \<Rightarrow> num0 P | Some t \<Rightarrow> latitude t),
      altitude = (case currentTransform of None \<Rightarrow> num0 P | Some t \<Rightarrow> altitude t),
      roll = (case currentTransform of None \<Rightarrow> None | Some t \<Rightarrow> roll t),
      pitch = (case currentTransform of None \<Rightarrow> None | Some t \<Rightarrow> pitch t),
      yaw = (case currentTransform of None \<Rightarrow> None | Some t \<Rightarrow> yaw t)\<rparr>"

text \<open>The \<^verbatim>\<open>T=\<close> property of a kept entity's row.\<close>

definition handleTransform ::
  "'n platform \<Rightarrow> 'n \<Rightarrow> string list \<Rightarrow> 'n AcmiParser \<Rightarrow> error + 'n AcmiParser" where
  "handleTransform P i props this =
     (case find (\<lambda>prop. startsWith prop ''T='') props of
        None \<Rightarrow> Inr this
      | Some prop \<Rightarrow>
          (case indexOf prop CHR ''='' of
             None \<Rightarrow> Inr this
           | Some equalPos \<Rightarrow>
               (let currentTransform = map_of (scene (currentFrame this)) i;
                    propValue = drop (equalPos + 1) prop;
                    coords = splitOn CHR ''|'' propValue
                in case decodeCoords P (refLong this) (refLat this) coords
                          (startTransform P currentTransform) of
                     Inl e \<Rightarrow> Inl e
                   | Inr transform \<Rightarrow>
                       Inr (this\<lparr>currentFrame := (currentFrame this)
                              \<lparr>scene := AList.update i transform (scene (currentFrame this))\<rparr>\<rparr>))))"

text \<open>An entity row (\<^verbatim>\<open>id,...\<close>), in the order of the code: the entity in hand is the
  one of the map or a new one that starts now; the fields are read into it; an entity of
  the map is thereby updated in place, a new one is stored, and its id kept, only when it
  passes the filter; the \<^verbatim>\<open>T=\<close> field is decoded when the id is kept.\<close>

definition entityInHand :: "'n platform \<Rightarrow> 'n \<Rightarrow> 'n AcmiParser \<Rightarrow> 'n EntityProps" where
  "entityInHand P i this =
     (case map_of (entities (data this)) i of
        Some entityProps \<Rightarrow> entityProps
      | None \<Rightarrow>
          (newEntityProps i)\<lparr>EntityProps.timeSpan := newTimeSpan\<lparr>start := currentTime P this\<rparr>\<rparr>)"

definition storeEntity :: "'n \<Rightarrow> bool \<Rightarrow> 'n EntityProps \<Rightarrow> 'n AcmiParser \<Rightarrow> 'n AcmiParser" where
  "storeEntity i newEntity entityProps this =
     (if newEntity then
        (if keepEntity (filter' this) entityProps then
           (putEntity i entityProps this)\<lparr>filteredIds := filteredIds this @ [i]\<rparr>
         else this)
      else putEntity i entityProps this)"

definition upsertFields ::
  "'n platform \<Rightarrow> 'n \<Rightarrow> string \<Rightarrow> 'n AcmiParser \<Rightarrow> error + 'n AcmiParser" where
  "upsertFields P i entityLine this =
     (let newEntity = (map_of (entities (data this)) i = None);
          props = splitProperties False entityLine;
          (entityProps, this1) = fold (setEntityProperty P) props (entityInHand P i this, this);
          this2 = storeEntity i newEntity entityProps this1
      in if indexOfNum P (filteredIds this2) i then handleTransform P i props this2
         else Inr this2)"

definition upsertEntity :: "'n platform \<Rightarrow> string \<Rightarrow> 'n AcmiParser \<Rightarrow> error + 'n AcmiParser" where
  "upsertEntity P line this =
     (case indexOf line CHR '','' of
        None \<Rightarrow> Inr (invalidate this)
      | Some commaPos \<Rightarrow>
          upsertFields P (parseInt16 P (slice line 0 commaPos)) (drop (commaPos + 1) line) this)"

definition parseLine :: "'n platform \<Rightarrow> 'n AcmiParser \<Rightarrow> error + 'n AcmiParser" where
  "parseLine P this =
     (let line = currentLine this;
          r = (if startsWith line ''0,Event'' then Inr this
               else if startsWith line ''0,'' then
                 Inr (fold (setGlobalProperty P) (splitProperties False (drop 2 line)) this)
               else if startsWith line ''#'' then Inr (timeMarker P line this)
               else if startsWith line ''-'' then Inr (removeEntity P line this)
               else upsertEntity P line this)
      in case r of Inl e \<Rightarrow> Inl e | Inr this' \<Rightarrow> Inr (this'\<lparr>currentLine := []\<rparr>))"

subsection \<open>The line scanner \<^verbatim>\<open>_parseContent\<close>\<close>

text \<open>What the loop does with a physical line from the third on.\<close>

definition scanLine :: "'n platform \<Rightarrow> string \<Rightarrow> 'n AcmiParser \<Rightarrow> error + 'n AcmiParser" where
  "scanLine P line this =
     (if \<not> trimIsEmpty line \<and> \<not> startsWith line ''//'' then
        (if endsWith line [CHR 0x5C] then
           Inr (this\<lparr>currentLine := currentLine this @ slice line 0 (length line - 1) @ [LF]\<rparr>)
         else parseLine P (this\<lparr>currentLine := currentLine this @ line\<rparr>))
      else Inr this)"

function parseContentLoop ::
  "'n platform \<Rightarrow> bytes \<Rightarrow> nat \<Rightarrow> nat \<Rightarrow> bool \<Rightarrow> nat \<Rightarrow> 'n AcmiParser \<Rightarrow> error + 'n AcmiParser" where
  "parseContentLoop P buffer current start0 previousCR index this =
     (if current < length buffer then
        (if buffer ! current = CR then
           parseContentLoop P buffer (current + 1) start0 True index this
         else if buffer ! current = LF then
           (let lineEnd = (if previousCR then current - 1 else current);
                line = decode (slice buffer start0 lineEnd)
            in case (if index > 1 then scanLine P line this else Inr this) of
                 Inl e \<Rightarrow> Inl e
               | Inr this' \<Rightarrow>
                   parseContentLoop P buffer (current + 1) (current + 1) False (index + 1) this')
         else parseContentLoop P buffer (current + 1) start0 previousCR index this)
      else Inr this)"
  by pat_completeness auto
termination
  by (relation "measure (\<lambda>(P, buffer, current, start0, previousCR, index, this). length buffer - current)") auto

declare parseContentLoop.simps [simp del]

text \<open>\<^verbatim>\<open>frames.findIndex((frame) => frame.scene.size > 0)\<close>, as the frame found.\<close>

definition firstNonEmptyFrame :: "'n Frame list \<Rightarrow> 'n Frame option" where
  "firstNonEmptyFrame fs = find (\<lambda>frame. scene frame \<noteq> []) fs"

text \<open>After the loop: the frame in hand is pushed when a frame was pushed before, and
  the time span of the data is computed.\<close>

definition finishContent :: "'n platform \<Rightarrow> 'n AcmiParser \<Rightarrow> 'n AcmiParser" where
  "finishContent P this =
     (if frames (data this) \<noteq> [] then
        (let fs = frames (data this) @ [currentFrame this];
             this1 = this\<lparr>data := (data this)\<lparr>frames := fs\<rparr>\<rparr>;
             referenceTime0 = referenceTime (globalProperties (data this1))
         in case firstNonEmptyFrame fs of
              Some frame \<Rightarrow>
                (if referenceTime0 \<noteq> None then
                   this1\<lparr>data := (data this1)\<lparr>AcmiData.timeSpan :=
                     \<lparr>start = addSeconds P referenceTime0 (timeStamp frame),
                      end' = addSeconds P referenceTime0 (timeStamp (last fs))\<rparr>\<rparr>\<rparr>
                 else invalidate this1)
            | None \<Rightarrow> invalidate this1)
      else this)"

definition parseContent :: "'n platform \<Rightarrow> bytes \<Rightarrow> 'n AcmiParser \<Rightarrow> error + 'n AcmiParser" where
  "parseContent P buffer this =
     (case parseContentLoop P buffer 0 0 False 0 this of
        Inl e \<Rightarrow> Inl e
      | Inr this1 \<Rightarrow> Inr (finishContent P this1))"

subsection \<open>\<^verbatim>\<open>_parseBuffer\<close> and \<^verbatim>\<open>parse\<close>\<close>

definition finalizeEntity :: "'n AcmiData \<Rightarrow> 'n EntityProps \<Rightarrow> 'n EntityProps" where
  "finalizeEntity d entity =
     (if end' (EntityProps.timeSpan entity) = None then
        entity\<lparr>EntityProps.timeSpan :=
          (EntityProps.timeSpan entity)\<lparr>end' := end' (AcmiData.timeSpan d)\<rparr>\<rparr>
      else entity)"

definition parseBuffer ::
  "'n platform \<Rightarrow> bytes \<Rightarrow> 'n AcmiParser \<Rightarrow> error + ('n AcmiData \<times> 'n AcmiParser)" where
  "parseBuffer P buffer this =
     (case parseContent P buffer (parseHeader buffer this) of
        Inl e \<Rightarrow> Inl e
      | Inr this1 \<Rightarrow>
          (let d = data this1;
               d' = d\<lparr>entities := map (\<lambda>(i, entity). (i, finalizeEntity d entity)) (entities d)\<rparr>
           in Inr (d', this1\<lparr>data := d'\<rparr>)))"

definition isZipped :: "bytes \<Rightarrow> bool" where
  "isZipped dat = (length dat > 1 \<and> decode (slice dat 0 2) = ''PK'')"

text \<open>The state \<^verbatim>\<open>parse\<close> starts from: everything is reset but the reference longitude
  and latitude, which stay as the parser's last parse left them. \<^verbatim>\<open>parse\<close> returns a
  promise; the model gives what it resolves with. The abort signal of the options only
  rejects that promise and is left out.\<close>

definition resetParser :: "'n platform \<Rightarrow> string list option \<Rightarrow> 'n AcmiParser \<Rightarrow> 'n AcmiParser" where
  "resetParser P filterOption this =
     this\<lparr>data := newAcmiData,
          filter' := (case filterOption of None \<Rightarrow> [] | Some f \<Rightarrow> f),
          currentLine := [],
          currentTimeStamp := num0 P,
          currentFrame := newFrame (num0 P) [],
          destroyedIds := [],
          filteredIds := []\<rparr>"

definition parse ::
  "'n platform \<Rightarrow> bytes \<Rightarrow> string list option \<Rightarrow> 'n AcmiParser \<Rightarrow> error + ('n AcmiData \<times> 'n AcmiParser)" where
  "parse P dat filterOption this =
     (if isZipped dat then
        (case unzip P dat of
           Some [buffer] \<Rightarrow> parseBuffer P buffer (resetParser P filterOption this)
         | _ \<Rightarrow> Inl InvalidCompressedFile)
      else parseBuffer P dat (resetParser P filterOption this))"

text \<open>The data \<^verbatim>\<open>parse\<close> resolves with, \<open>None\<close> when it never resolves.\<close>

definition returnedData :: "error + ('n AcmiData \<times> 'n AcmiParser) \<Rightarrow> 'n AcmiData option" where
  "returnedData r = (case r of Inl e \<Rightarrow> None | Inr (d, this) \<Rightarrow> Some d)"

section \<open>Sampled trajectories (acmiData.ts)\<close>

text \<open>
  \<^verbatim>\<open>createSampledTrajectories\<close> walks the time span of the data at the sample rate and
  appends, for every entity of the frame found at each time, a sample to the entity's
  trajectory. What it takes from JavaScript, dayjs and Cesium extends the platform:
  \<open>numSub\<close>, \<open>numLe\<close> and \<open>numLess\<close> are \<^verbatim>\<open>-\<close>, \<^verbatim>\<open><=\<close> and \<^verbatim>\<open><\<close> on two
  numbers (\<^verbatim>\<open>a > b\<close> is \<open>numLess b a\<close>); \<open>diffSeconds a b\<close> is
  \<^verbatim>\<open>dayjs.duration(a.diff(b)).asSeconds()\<close>. The position and the orientation of a sample
  are computed by Cesium from the transform alone, so a sample keeps the transform in
  their place, and \<open>sameState a b\<close> says that the positions computed from \<open>a\<close> and
  \<open>b\<close> are equal within \<^verbatim>\<open>EPSILON6\<close> and the orientations too
  (\<^verbatim>\<open>Cartesian3.equalsEpsilon\<close> and \<^verbatim>\<open>Quaternion.equalsEpsilon\<close>). The passes that
  follow the sampling (\<^verbatim>\<open>fixMslHeight\<close>, \<^verbatim>\<open>emulateOrientations\<close>) overwrite the position
  or the orientation of samples in place; they add or drop no sample and change no time,
  and are not modelled.
\<close>

record 'n samplingPlatform = "'n platform" +
  numSub :: "'n \<Rightarrow> 'n \<Rightarrow> 'n"
  numLe :: "'n \<Rightarrow> 'n \<Rightarrow> bool"
  numLess :: "'n \<Rightarrow> 'n \<Rightarrow> bool"
  diffSeconds :: "Dayjs \<Rightarrow> Dayjs \<Rightarrow> 'n"
  sameState :: "'n ITransform \<Rightarrow> 'n ITransform \<Rightarrow> bool"

record 'n ITrajectorySample =
  time :: Dayjs
  state :: "'n ITransform"

type_synonym 'n Trajectories = "('n \<times> 'n ITrajectorySample list) list"

text \<open>\<^verbatim>\<open>a.isSameOrBefore(b)\<close>: false when either date is invalid.\<close>

definition isSameOrBefore :: "Dayjs \<Rightarrow> Dayjs \<Rightarrow> bool" where
  "isSameOrBefore a b =
     (case a of None \<Rightarrow> False | Some x \<Rightarrow> (case b of None \<Rightarrow> False | Some y \<Rightarrow> x \<le> y))"

text \<open>The frame with the largest time stamp not after the one searched:
  \<^verbatim>\<open>bounds.le(frames, new Frame(timeStamp), (a, b) => a.timeStamp - b.timeStamp)\<close> of the
  package binary-search-bounds, which is the binary search that the repository writes
  out as \<^verbatim>\<open>_searchFrameIndex\<close> in acmi/acmiData.ts. The indices are integers: the search
  returns -1 when no frame qualifies.\<close>

function searchFrameLoop ::
  "'n samplingPlatform \<Rightarrow> 'n Frame list \<Rightarrow> 'n \<Rightarrow> int \<Rightarrow> int \<Rightarrow> int \<Rightarrow> int" where
  "searchFrameLoop Q fs searchedTimeStamp index lowIndex highIndex =
     (if lowIndex \<le> highIndex then
        (let midIndex = lowIndex + (highIndex - lowIndex) div 2
         in if numLe Q (numSub Q (timeStamp (fs ! nat midIndex)) searchedTimeStamp) (num0 Q) then
              searchFrameLoop Q fs searchedTimeStamp midIndex (midIndex + 1) highIndex
            else searchFrameLoop Q fs searchedTimeStamp index lowIndex (midIndex - 1))
      else index)"
  by pat_completeness auto
termination
  by (relation "measure (\<lambda>(Q, fs, searchedTimeStamp, index, lowIndex, highIndex).
        nat (highIndex - lowIndex + 1))") auto

declare searchFrameLoop.simps [simp del]

definition searchFrameIndex :: "'n samplingPlatform \<Rightarrow> 'n Frame list \<Rightarrow> 'n \<Rightarrow> int" where
  "searchFrameIndex Q fs searchedTimeStamp =
     searchFrameLoop Q fs searchedTimeStamp (- 1) 0 (int (length fs) - 1)"

definition getFrame :: "'n samplingPlatform \<Rightarrow> 'n AcmiData \<Rightarrow> Dayjs \<Rightarrow> 'n Frame option" where
  "getFrame Q d time0 =
     (if isValidTimeSpan (AcmiData.timeSpan d) then
        (let start0 = referenceTime (globalProperties d);
             end0 = end' (AcmiData.timeSpan d)
         in if isSameOrBefore start0 time0 \<and> isSameOrBefore time0 end0 then
              (let timeStamp0 = diffSeconds Q time0 start0;
                   index = searchFrameIndex Q (frames d) timeStamp0
               in if index < 0 then None else Some (frames d ! nat index))
            else None)
      else None)"

text \<open>The body of \<^verbatim>\<open>scene.forEach\<close> in \<^verbatim>\<open>_addFrame\<close>: a sample equal in state to the
  last one of the trajectory is skipped, unless it is the sample of the last frame.\<close>

definition addSample ::
  "'n samplingPlatform \<Rightarrow> Dayjs \<Rightarrow> bool \<Rightarrow> 'n \<times> 'n ITransform \<Rightarrow> 'n Trajectories \<Rightarrow> 'n Trajectories" where
  "addSample Q time0 lastFrame = (\<lambda>(i, transform) trajectories.
     (let samples = (case map_of trajectories i of None \<Rightarrow> [] | Some t \<Rightarrow> t)
      in if \<not> lastFrame \<and> samples \<noteq> [] \<and> sameState Q (state (last samples)) transform then
           trajectories
         else AList.update i (samples @ [\<lparr>time = time0, state = transform\<rparr>]) trajectories))"

definition addFrame ::
  "'n samplingPlatform \<Rightarrow> 'n Trajectories \<Rightarrow> Dayjs \<Rightarrow> 'n Frame \<Rightarrow> bool \<Rightarrow> 'n Trajectories" where
  "addFrame Q trajectories time0 frame lastFrame =
     fold (addSample Q time0 lastFrame) (scene frame) trajectories"

text \<open>The \<^verbatim>\<open>do ... while (timeStamp <= duration)\<close> loop. It need not end (a sample
  rate of zero): \<open>None\<close> is the loop that never ends. It returns the time stamp it
  stopped at with the trajectories.\<close>

partial_function (option) sampleLoop ::
  "'n samplingPlatform \<Rightarrow> 'n AcmiData \<Rightarrow> 'n \<Rightarrow> 'n \<Rightarrow> 'n \<Rightarrow> 'n Trajectories \<Rightarrow>
     ('n \<times> 'n Trajectories) option" where
  "sampleLoop Q d sampleRate duration timeStamp0 trajectories =
     (let time0 = addSeconds Q (start (AcmiData.timeSpan d)) timeStamp0;
          trajectories1 =
            (case getFrame Q d time0 of
               None \<Rightarrow> trajectories
             | Some frame \<Rightarrow> addFrame Q trajectories time0 frame False);
          timeStamp1 = numAdd Q timeStamp0 sampleRate
      in if numLe Q timeStamp1 duration then
           sampleLoop Q d sampleRate duration timeStamp1 trajectories1
         else Some (timeStamp1, trajectories1))"

declare sampleLoop.simps [code]

definition createSampledTrajectories ::
  "'n samplingPlatform \<Rightarrow> 'n option \<Rightarrow> 'n AcmiData \<Rightarrow> 'n Trajectories option" where
  "createSampledTrajectories Q sampleRateOption d =
     (let sampleRate = (case sampleRateOption of None \<Rightarrow> num1 Q | Some r \<Rightarrow> r);
          timeSpan0 = AcmiData.timeSpan d
      in if isValidTimeSpan timeSpan0 then
           (let duration = diffSeconds Q (end' timeSpan0) (start timeSpan0);
                end0 = end' timeSpan0
            in case sampleLoop Q d sampleRate duration (num0 Q) [] of
                 None \<Rightarrow> None
               | Some (timeStamp0, trajectories) \<Rightarrow>
                   Some (if numLess Q duration timeStamp0 then
                           (case getFrame Q d end0 of
                              None \<Rightarrow> trajectories
                            | Some endFrame \<Rightarrow> addFrame Q trajectories end0 endFrame True)
                         else trajectories))
         else Some [])"

section \<open>The roll smoother (trajectory.ts)\<close>

text \<open>
  \<^verbatim>\<open>_simpleSmooth(value, alpha)\<close> reads and writes \<^verbatim>\<open>this._lastRoll\<close>: the model takes
  the last roll and returns the value with the new last roll. The numbers are real
  numbers. \<open>simpleSmooth\<close> is the function of trajectory/trajectory.ts, whose threshold
  is \<^verbatim>\<open>toRadians(1)\<close>; \<open>simpleSmoothCesium\<close> is the one of trajectory.ts, whose threshold
  is \<^verbatim>\<open>2 * CMath.RADIANS_PER_DEGREE\<close>.
\<close>

definition oneDegree :: real where
  "oneDegree = pi / 180"

definition simpleSmooth :: "real \<Rightarrow> real \<Rightarrow> real \<Rightarrow> real \<times> real" where
  "simpleSmooth value alpha lastRoll =
     (let value1 = alpha * value + (1 - alpha) * lastRoll;
          value2 = (if value1 < oneDegree then 0 else value1)
      in (value2, value2))"

definition simpleSmoothCesium :: "real \<Rightarrow> real \<Rightarrow> real \<Rightarrow> real \<times> real" where
  "simpleSmoothCesium value alpha lastRoll =
     (let value1 = alpha * value + (1 - alpha) * lastRoll;
          value2 = (if value1 < 2 * (pi / 180) then 0 else value1)
      in (value2, value2))"

section \<open>A platform for the examples\<close>

text \<open>
  The examples below run the parser on a platform whose numbers are the rationals and
  NaN (\<open>None\<close>). It agrees with JavaScript on what the examples give it: \<^verbatim>\<open>+s\<close>
  for \<open>s\<close> empty or a string of decimal digits, \<^verbatim>\<open>parseInt(s, 16)\<close> for \<open>s\<close> a
  string of hexadecimal digits, sums of small integers, \<^verbatim>\<open>===\<close>, the date
  \<^verbatim>\<open>2024-01-01T00:00:00Z\<close> (1704067200000 ms after the epoch), and \<^verbatim>\<open>add\<close>, which
  adds the seconds as milliseconds and truncates to a whole millisecond.
\<close>

type_synonym num = "rat option"

definition digitValue :: "char \<Rightarrow> nat option" where
  "digitValue c =
     (let n = (of_char c :: nat) in if 48 \<le> n \<and> n \<le> 57 then Some (n - 48) else None)"

definition hexDigitValue :: "char \<Rightarrow> nat option" where
  "hexDigitValue c =
     (let n = (of_char c :: nat)
      in if 48 \<le> n \<and> n \<le> 57 then Some (n - 48)
         else if 97 \<le> n \<and> n \<le> 102 then Some (n - 87)
         else if 65 \<le> n \<and> n \<le> 70 then Some (n - 55)
         else None)"

fun decimalValue :: "nat \<Rightarrow> string \<Rightarrow> nat option" where
  "decimalValue acc [] = Some acc"
| "decimalValue acc (c # cs) =
     (case digitValue c of None \<Rightarrow> None | Some d \<Rightarrow> decimalValue (10 * acc + d) cs)"

fun hexPrefixValue :: "nat option \<Rightarrow> string \<Rightarrow> nat option" where
  "hexPrefixValue acc [] = acc"
| "hexPrefixValue acc (c # cs) =
     (case hexDigitValue c of
        None \<Rightarrow> acc
      | Some d \<Rightarrow> hexPrefixValue (Some (16 * (case acc of None \<Rightarrow> 0 | Some a \<Rightarrow> a) + d)) cs)"

definition truncateRat :: "rat \<Rightarrow> int" where
  "truncateRat q = (if 0 \<le> q then \<lfloor>q\<rfloor> else \<lceil>q\<rceil>)"

definition exToNumber :: "string \<Rightarrow> num" where
  "exToNumber s = map_option of_nat (decimalValue 0 s)"

definition exParseInt16 :: "string \<Rightarrow> num" where
  "exParseInt16 s = map_option of_nat (hexPrefixValue None s)"

definition exNumAdd :: "num \<Rightarrow> num \<Rightarrow> num" where
  "exNumAdd a b =
     (case a of None \<Rightarrow> None | Some x \<Rightarrow> (case b of None \<Rightarrow> None | Some y \<Rightarrow> Some (x + y)))"

definition exStrictEq :: "num \<Rightarrow> num \<Rightarrow> bool" where
  "exStrictEq a b =
     (case a of None \<Rightarrow> False | Some x \<Rightarrow> (case b of None \<Rightarrow> False | Some y \<Rightarrow> x = y))"

definition exDayjs :: "string \<Rightarrow> Dayjs" where
  "exDayjs s = (if s = ''2024-01-01T00:00:00Z'' then Some 1704067200000 else None)"

definition exAddSeconds :: "Dayjs \<Rightarrow> num \<Rightarrow> Dayjs" where
  "exAddSeconds d x =
     (case d of
        None \<Rightarrow> None
      | Some ms \<Rightarrow> (case x of None \<Rightarrow> None | Some r \<Rightarrow> Some (truncateRat (of_int ms + r * 1000))))"

definition examplePlatform :: "num platform" where
  "examplePlatform =
     \<lparr>num0 = Some 0, num1 = Some 1, toNumber = exToNumber, parseInt16 = exParseInt16,
      numAdd = exNumAdd, strictEq = exStrictEq, dayjs = exDayjs, addSeconds = exAddSeconds,
      unzip = (\<lambda>b. None)\<rparr>"

text \<open>\<^verbatim>\<open>a < b\<close> on the numbers of the examples.\<close>

definition exLess :: "num \<Rightarrow> num \<Rightarrow> bool" where
  "exLess a b =
     (case a of None \<Rightarrow> False | Some x \<Rightarrow> (case b of None \<Rightarrow> False | Some y \<Rightarrow> x < y))"

text \<open>The sampling of the examples: subtraction and comparison of the rationals, the
  difference of two dates in seconds, and transforms that give the same state exactly when
  they are equal (true of the transforms of the examples, which are equal or a degree and
  more apart).\<close>

definition exNumSub :: "num \<Rightarrow> num \<Rightarrow> num" where
  "exNumSub a b =
     (case a of None \<Rightarrow> None | Some x \<Rightarrow> (case b of None \<Rightarrow> None | Some y \<Rightarrow> Some (x - y)))"

definition exLe :: "num \<Rightarrow> num \<Rightarrow> bool" where
  "exLe a b =
     (case a of None \<Rightarrow> False | Some x \<Rightarrow> (case b of None \<Rightarrow> False | Some y \<Rightarrow> x \<le> y))"

definition exDiffSeconds :: "Dayjs \<Rightarrow> Dayjs \<Rightarrow> num" where
  "exDiffSeconds a b =
     (case a of
        None \<Rightarrow> None
      | Some x \<Rightarrow> (case b of None \<Rightarrow> None | Some y \<Rightarrow> Some (of_int (x - y) / 1000)))"

definition exampleSamplingPlatform :: "num samplingPlatform" where
  "exampleSamplingPlatform =
     \<lparr>num0 = Some 0, num1 = Some 1, toNumber = exToNumber, parseInt16 = exParseInt16,
      numAdd = exNumAdd, strictEq = exStrictEq, dayjs = exDayjs, addSeconds = exAddSeconds,
      unzip = (\<lambda>b. None), numSub = exNumSub, numLe = exLe, numLess = exLess,
      diffSeconds = exDiffSeconds, sameState = (=)\<rparr>"

text \<open>The sample times of a trajectory, with the entity's id.\<close>

definition sampleTimes :: "'n \<times> 'n ITrajectorySample list \<Rightarrow> 'n \<times> Dayjs list" where
  "sampleTimes = (\<lambda>(i, samples). (i, map time samples))"

text \<open>A file is written as its physical lines, each ended by LF.\<close>

definition acmiFile :: "string list \<Rightarrow> bytes" where
  "acmiFile ls = concat (map (\<lambda>l. l @ [LF]) ls)"

text \<open>The parser the examples start from: a new parser, reset by \<^verbatim>\<open>parse\<close> called
  without a filter or with one.\<close>

definition exampleParser :: "string list option \<Rightarrow> num AcmiParser" where
  "exampleParser filterOption =
     resetParser examplePlatform filterOption (newAcmiParser examplePlatform)"

text \<open>The data \<^verbatim>\<open>parse\<close> resolves with on the platform of the examples, called on a new
  parser.\<close>

definition exampleParse :: "bytes \<Rightarrow> string list option \<Rightarrow> num AcmiData option" where
  "exampleParse dat filterOption =
     returnedData (parse examplePlatform dat filterOption (newAcmiParser examplePlatform))"

definition headerLines :: "string list" where
  "headerLines = [''FileType=text/acmi/tacview'', ''FileVersion=2.2'']"

section \<open>Notions of the properties\<close>

text \<open>Each time stamp of the list is \<^verbatim>\<open>!==\<close> the one before it.\<close>

fun distinctAdjacent :: "'n platform \<Rightarrow> 'n list \<Rightarrow> bool" where
  "distinctAdjacent P (a # b # xs) = (\<not> strictEq P b a \<and> distinctAdjacent P (b # xs))"
| "distinctAdjacent P xs = True"


text \<open>A step of the decoder is steady when it pushes no frame, keeps the current time
  stamp, the time stamp of the current frame and the time span of the data, and does not
  make invalid data valid.\<close>

definition steady :: "'n AcmiParser \<Rightarrow> 'n AcmiParser \<Rightarrow> bool" where
  "steady this this' =
     (frames (data this') = frames (data this) \<and>
      currentTimeStamp this' = currentTimeStamp this \<and>
      timeStamp (currentFrame this') = timeStamp (currentFrame this) \<and>
      AcmiData.timeSpan (data this') = AcmiData.timeSpan (data this) \<and>
      (isValid (data this') \<longrightarrow> isValid (data this)))"

text \<open>The invariant of the frame list while a buffer is read: with the current time stamp
  put after the time stamps of the pushed frames, each is \<^verbatim>\<open>!==\<close> the one before it, and
  the current frame carries the current time stamp.\<close>

definition timeline :: "'n platform \<Rightarrow> 'n AcmiParser \<Rightarrow> bool" where
  "timeline P this =
     (distinctAdjacent P (map timeStamp (frames (data this)) @ [currentTimeStamp this]) \<and>
      timeStamp (currentFrame this) = currentTimeStamp this)"

text \<open>The current scene after a step of the decoder, \<open>None\<close> when the step throws; the
  three angles of a transform; the time stamp of a frame with the ids of its scene.\<close>

definition sceneAfter :: "error + 'n AcmiParser \<Rightarrow> 'n Scene option" where
  "sceneAfter r = (case r of Inl e \<Rightarrow> None | Inr this \<Rightarrow> Some (scene (currentFrame this)))"

definition angles :: "'n ITransform \<Rightarrow> 'n option \<times> 'n option \<times> 'n option" where
  "angles t = (roll t, pitch t, yaw t)"

definition sceneIds :: "'n Frame \<Rightarrow> 'n \<times> 'n list" where
  "sceneIds frame = (timeStamp frame, map fst (scene frame))"

text \<open>The entity an entity row has in hand once its fields are read, which is the one
  the filter judges when the entity is new.\<close>

definition rowEntity :: "'n platform \<Rightarrow> 'n \<Rightarrow> string \<Rightarrow> 'n AcmiParser \<Rightarrow> 'n EntityProps" where
  "rowEntity P i entityLine this =
     fst (fold (setEntityProperty P) (splitProperties False entityLine) (entityInHand P i this, this))"

section \<open>Example files and example states\<close>


definition wrongTypeFile :: bytes where
  "wrongTypeFile = acmiFile [''FileType=text/plain'', ''FileVersion=2.2'',
     ''0,ReferenceTime=2024-01-01T00:00:00Z'', ''a,T=1|2|3'', ''#1'']"

definition noMarkerFile :: bytes where
  "noMarkerFile = acmiFile (headerLines @ [''a,T=1|2|3''])"

definition twoFrameFile :: bytes where
  "twoFrameFile = acmiFile (headerLines @
     [''0,ReferenceTime=2024-01-01T00:00:00Z'', ''#0'', ''a,T=1|2|3'', ''#1'', ''a,T=4|5|6''])"

definition nineSlotFile :: bytes where
  "nineSlotFile = acmiFile (headerLines @ [''a,T=1|2|3|10|20|30|40|50|60'', ''#1''])"

definition removalFile :: bytes where
  "removalFile = acmiFile (headerLines @
     [''0,ReferenceTime=2024-01-01T00:00:00Z'', ''a,T=1|2|3'', ''#2'', ''-a'', ''#3''])"

definition filteredFile :: bytes where
  "filteredFile = acmiFile (headerLines @
     [''0,ReferenceTime=2024-01-01T00:00:00Z'', ''#0'', ''a,T=0|0|0,Name=x,Type=Air+FixedWing'',
      ''#1'', ''a,T=1|0|100''])"

text \<open>A parser in the middle of a file: the entity \<^verbatim>\<open>a\<close> (id 10) is stored and kept and
  has a transform in the current scene, the reference longitude is 30 and the reference
  latitude 40, and the logical line to decode is \<open>line\<close>.\<close>

definition keptParser :: "string \<Rightarrow> num AcmiParser" where
  "keptParser line =
     (exampleParser None)
       \<lparr>currentLine := line,
        currentFrame := newFrame (Some 0)
          [(Some 10, \<lparr>longitude = Some 31, latitude = Some 42, altitude = Some 3,
                      roll = None, pitch = Some (Some 7), yaw = None\<rparr>)],
        filteredIds := [Some 10],
        data := newAcmiData\<lparr>entities := [(Some 10, newEntityProps (Some 10))]\<rparr>,
        refLat := Some 40, refLong := Some 30\<rparr>"

text \<open>A parser before the first row of any entity: no entity is stored, no id is kept and
  the scene is empty; \<^verbatim>\<open>parse\<close> was called with the filter \<open>filterOption\<close>, the
  reference longitude is 30 and the reference latitude 40, and the logical line to decode
  is \<open>line\<close>.\<close>

definition firstRowParser :: "string list option \<Rightarrow> string \<Rightarrow> num AcmiParser" where
  "firstRowParser filterOption line =
     (exampleParser filterOption)\<lparr>currentLine := line, refLat := Some 40, refLong := Some 30\<rparr>"

section \<open>Properties of the line scanner\<close>

lemma slice_append_within:
  "e \<le> length buf \<Longrightarrow> slice (buf @ tail) b e = slice buf b e"
  by (simp add: slice_def)

lemma loop_past_end:
  "length buffer \<le> current \<Longrightarrow> parseContentLoop P buffer current s pcr idx this = Inr this"
  by (subst parseContentLoop.simps) simp

text \<open>Without a line feed ahead, the loop only walks to the end of the buffer.\<close>

lemma loop_no_LF:
  "LF \<notin> set (drop current buffer) \<Longrightarrow> parseContentLoop P buffer current s pcr idx this = Inr this"
proof (induction P buffer current s pcr idx this rule: parseContentLoop.induct)
  case (1 P buffer current start0 previousCR index this)
  show ?case
  proof (cases "current < length buffer")
    case False
    then show ?thesis by (simp add: loop_past_end)
  next
    case True
    then have d: "drop current buffer = buffer ! current # drop (Suc current) buffer"
      by (simp add: Cons_nth_drop_Suc)
    with 1(4) have nLF: "buffer ! current \<noteq> LF" and rest: "LF \<notin> set (drop (current + 1) buffer)"
      by auto
    show ?thesis
    proof (cases "buffer ! current = CR")
      case True
      with \<open>current < length buffer\<close> 1(1) rest show ?thesis
        by (subst parseContentLoop.simps) simp
    next
      case False
      with \<open>current < length buffer\<close> 1(3) rest nLF show ?thesis
        by (subst parseContentLoop.simps) simp
    qed
  qed
qed

lemma loop_append:
  assumes "LF \<notin> set tail"
  shows "parseContentLoop P (buf @ tail) current s pcr idx this
       = parseContentLoop P buf current s pcr idx this"
proof (induction P buf current s pcr idx this rule: parseContentLoop.induct)
  case (1 P buffer current start0 previousCR index this)
  show ?case
  proof (cases "current < length buffer")
    case False
    then have "drop current (buffer @ tail) = drop (current - length buffer) tail" by simp
    then have "LF \<notin> set (drop current (buffer @ tail))"
      using assms by (metis in_set_dropD)
    then show ?thesis using False by (simp add: loop_no_LF loop_past_end)
  next
    case True
    then have nth: "(buffer @ tail) ! current = buffer ! current" by (simp add: nth_append)
    show ?thesis
    proof (cases "buffer ! current = CR")
      case True
      with \<open>current < length buffer\<close> 1(1) nth show ?thesis
        by (subst parseContentLoop.simps, subst (2) parseContentLoop.simps) simp
    next
      case nCR: False
      show ?thesis
      proof (cases "buffer ! current = LF")
        case False
        with \<open>current < length buffer\<close> 1(3) nth nCR show ?thesis
          by (subst parseContentLoop.simps, subst (2) parseContentLoop.simps) simp
      next
        case True
        have sl: "slice (buffer @ tail) start0 (if previousCR then current - 1 else current)
                = slice buffer start0 (if previousCR then current - 1 else current)"
          using \<open>current < length buffer\<close> by (intro slice_append_within) auto
        show ?thesis
          using \<open>current < length buffer\<close> True nCR nth sl 1(2)
          by (subst parseContentLoop.simps, subst (2) parseContentLoop.simps)
             (auto simp: Let_def CR_def LF_def split: sum.splits)
      qed
    qed
  qed
qed

subsection \<open>The header pattern needs its two line feeds\<close>

lemma startsWith_set: "startsWith x p \<Longrightarrow> set p \<subseteq> set x"
  unfolding startsWith_def by (metis set_take_subset)

lemma startsWith_LF_free:
  "LF \<notin> set x \<Longrightarrow> \<not> startsWith x [CR, LF]" "LF \<notin> set x \<Longrightarrow> \<not> startsWith x [LF]"
  by (auto dest: startsWith_set)

lemma matchField_LF_free: "LF \<notin> set x \<Longrightarrow> matchField key x = None"
proof -
  assume a: "LF \<notin> set x"
  have "LF \<notin> set (dropWhile dot (drop (length key) x))"
    using a by (meson in_set_dropD set_dropWhileD)
  then show ?thesis
    by (simp add: matchField_def Let_def startsWith_LF_free)
qed

lemma stripBOM_LF_free: "LF \<notin> set x \<Longrightarrow> LF \<notin> set (stripBOM x)"
  by (auto simp: stripBOM_def dest: in_set_dropD)

lemma stripBOM_append:
  assumes "LF \<notin> set t"
  shows "stripBOM (s @ t) = stripBOM s @ t \<or> (LF \<notin> set (s @ t) \<and> LF \<notin> set s)"
proof (cases "3 \<le> length s")
  case True
  then show ?thesis by (simp add: stripBOM_def startsWith_def BOM_def)
next
  case False
  show ?thesis
  proof (cases "LF \<in> set s")
    case False
    with assms show ?thesis by simp
  next
    case True
    have "\<not> startsWith s BOM" using \<open>\<not> 3 \<le> length s\<close>
      by (auto simp: startsWith_def BOM_def)
    moreover have "\<not> startsWith (s @ t) BOM"
    proof
      assume "startsWith (s @ t) BOM"
      then have "\<exists>u. s @ u = BOM" using \<open>\<not> 3 \<le> length s\<close>
        by (simp add: startsWith_def BOM_def, blast)
      then have "set s \<subseteq> set BOM" by (metis set_append Un_upper1)
      with True show False by (auto simp: BOM_def LF_def)
    qed
    ultimately show ?thesis by (simp add: stripBOM_def)
  qed
qed

lemma matchField_append:
  assumes "LF \<notin> set t"
  shows "matchField key (s @ t) = map_option (\<lambda>(v, r). (v, r @ t)) (matchField key s)"
proof (cases "length key \<le> length s")
  case False
  then have "\<not> startsWith s key" by (auto simp: startsWith_def)
  then have "matchField key s = None" by (simp add: matchField_def)
  moreover have "matchField key (s @ t) = None"
  proof (cases "startsWith (s @ t) key")
    case False then show ?thesis by (simp add: matchField_def)
  next
    case True
    have "drop (length key) (s @ t) = drop (length key - length s) t"
      using \<open>\<not> length key \<le> length s\<close> by simp
    then have "LF \<notin> set (dropWhile dot (drop (length key) (s @ t)))"
      using assms by (metis in_set_dropD set_dropWhileD)
    then show ?thesis by (simp add: matchField_def Let_def startsWith_LF_free)
  qed
  ultimately show ?thesis by simp
next
  case True
  then have sw: "startsWith (s @ t) key = startsWith s key" by (simp add: startsWith_def)
  show ?thesis
  proof (cases "startsWith s key")
    case False
    with sw show ?thesis by (simp add: matchField_def)
  next
    case sk: True
    define r where "r = drop (length key) s"
    have dr: "drop (length key) (s @ t) = r @ t" using True by (simp add: r_def)
    show ?thesis
    proof (cases "\<forall>c\<in>set r. dot c")
      case True
      then have tw: "takeWhile dot r = r" "dropWhile dot r = []" by auto
      have "LF \<notin> set (dropWhile dot (r @ t))"
        using assms True by (metis Un_iff dot_def set_append set_dropWhileD)
      then have "matchField key (s @ t) = None"
        using sw sk dr by (simp add: matchField_def Let_def startsWith_LF_free)
      moreover have "matchField key s = None"
        using sk by (simp add: matchField_def Let_def r_def[symmetric] tw startsWith_LF_free)
      ultimately show ?thesis by simp
    next
      case False
      then have tw: "takeWhile dot (r @ t) = takeWhile dot r"
          and dw: "dropWhile dot (r @ t) = dropWhile dot r @ t"
        by (auto simp: takeWhile_append1 dropWhile_append1)
      from False have ne: "dropWhile dot r \<noteq> []" by auto
      then obtain c cs where ccs: "dropWhile dot r = c # cs" by (cases "dropWhile dot r") auto
      then have "\<not> dot c" by (metis hd_dropWhile list.sel(1) ne)
      then have c: "c = CR \<or> c = LF" by (auto simp: dot_def)
      have tLF: "t = [] \<or> hd t \<noteq> LF" using assms by (cases t) auto
      show ?thesis
        using sw sk dr tw dw ccs c tLF
        by (cases cs; cases t)
           (auto simp: matchField_def Let_def r_def[symmetric] startsWith_def CR_def LF_def)
    qed
  qed
qed

lemma headerFields_LF_free: "LF \<notin> set x \<Longrightarrow> headerFields x = None"
  by (simp add: headerFields_def matchField_LF_free)

lemma headerFields_append:
  "LF \<notin> set t \<Longrightarrow> headerFields (s @ t) = headerFields s"
  by (auto simp: headerFields_def matchField_append split: option.splits)

lemma headerPattern_decode_append:
  assumes "LF \<notin> set t"
  shows "headerPattern (decode (s @ t)) = headerPattern (decode s)"
proof -
  from stripBOM_append[OF assms, of s]
  show ?thesis
  proof
    assume e: "stripBOM (s @ t) = stripBOM s @ t"
    from stripBOM_append[OF assms, of "stripBOM s"]
    show ?thesis
    proof
      assume "stripBOM (stripBOM s @ t) = stripBOM (stripBOM s) @ t"
      then show ?thesis
        using e assms by (simp add: headerPattern_def decode_def headerFields_append)
    next
      assume "LF \<notin> set (stripBOM s @ t) \<and> LF \<notin> set (stripBOM s)"
      then show ?thesis
        using e
        by (simp add: headerPattern_def decode_def headerFields_LF_free stripBOM_LF_free
              del: set_append)
    qed
  next
    assume "LF \<notin> set (s @ t) \<and> LF \<notin> set s"
    then show ?thesis
      by (simp add: headerPattern_def decode_def headerFields_LF_free stripBOM_LF_free
            del: set_append)
  qed
qed

lemma parseHeader_append:
  assumes "LF \<notin> set tail"
  shows "parseHeader (buf @ tail) this = parseHeader buf this"
proof -
  have "slice (buf @ tail) 0 64 = slice buf 0 64 @ take (64 - length buf) tail"
    by (simp add: slice_def)
  moreover have "LF \<notin> set (take (64 - length buf) tail)"
    using assms by (meson in_set_takeD)
  ultimately show ?thesis
    by (simp add: parseHeader_def headerPattern_decode_append)
qed

text \<open>
  C10: the bytes after the last line feed of the buffer are never decoded or dispatched.
  Whatever follows the last LF (any bytes \<open>tail\<close> without a line feed, so also a whole
  buffer without one), \<^verbatim>\<open>_parseBuffer\<close> returns the same data and leaves the same
  parser state as on the buffer cut after its last LF: same entities, frames, global
  properties and validity.
\<close>

theorem parseBuffer_ignores_unterminated_tail:
  assumes "LF \<notin> set tail"
  shows "parseBuffer P (buf @ tail) this = parseBuffer P buf this"
  using assms by (simp add: parseBuffer_def parseContent_def loop_append parseHeader_append)

theorem parseBuffer_ignores_unterminated_tail_witness:
  "LF \<notin> set ''a,T=1|2|3'' \<and>
   parseBuffer examplePlatform (acmiFile (headerLines @ [''#1'']) @ ''a,T=1|2|3'') (exampleParser None)
     = parseBuffer examplePlatform (acmiFile (headerLines @ [''#1''])) (exampleParser None)"
  using parseBuffer_ignores_unterminated_tail
    [of "''a,T=1|2|3''" examplePlatform "acmiFile (headerLines @ [''#1''])" "exampleParser None"]
  by (simp add: LF_def)

section \<open>Invariants of the record decoder\<close>

lemma fold_invariant:
  "(\<And>x s. I s \<Longrightarrow> I (f x s)) \<Longrightarrow> I s \<Longrightarrow> I (fold f xs s)"
  by (induction xs arbitrary: s) auto

lemma scanLine_invariant:
  assumes line: "\<And>this this'. I this \<Longrightarrow> parseLine P this = Inr this' \<Longrightarrow> I this'"
    and cl: "\<And>this l. I this \<Longrightarrow> I (this\<lparr>currentLine := l\<rparr>)"
    and "I this" and "scanLine P line this = Inr this'"
  shows "I this'"
  using assms(3,4) by (auto simp: scanLine_def split: if_splits intro: line cl)

lemma loop_invariant:
  "(\<And>line this this'. I this \<Longrightarrow> scanLine P line this = Inr this' \<Longrightarrow> I this') \<Longrightarrow>
   I this \<Longrightarrow> parseContentLoop P buffer c s pcr idx this = Inr this' \<Longrightarrow> I this'"
proof (induction P buffer c s pcr idx this rule: parseContentLoop.induct)
  case (1 P buffer current start0 previousCR index this)
  note step = "1.prems"(1)
  note run = "1.prems"(3)[unfolded parseContentLoop.simps[of P buffer current]]
  show ?case
  proof (cases "current < length buffer")
    case False
    with run "1.prems"(2) show ?thesis by simp
  next
    case inside: True
    show ?thesis
    proof (cases "buffer ! current = CR")
      case True
      with inside run "1.IH"(1)[OF _ _ step] "1.prems"(2) show ?thesis by simp
    next
      case nCR: False
      show ?thesis
      proof (cases "buffer ! current = LF")
        case False
        with inside nCR run "1.IH"(3)[OF _ _ _ step] "1.prems"(2) show ?thesis by simp
      next
        case True
        define lineEnd where "lineEnd = (if previousCR then current - 1 else current)"
        define line where "line = decode (slice buffer start0 lineEnd)"
        have run': "(case (if index > 1 then scanLine P line this else Inr this) of
                       Inl e \<Rightarrow> Inl e
                     | Inr this1 \<Rightarrow>
                         parseContentLoop P buffer (current + 1) (current + 1) False (index + 1) this1)
                    = Inr this'"
          using inside nCR True run by (auto simp: Let_def line_def lineEnd_def split: if_splits)
        then obtain this1 where
          s1: "(if index > 1 then scanLine P line this else Inr this) = Inr this1"
          and r1: "parseContentLoop P buffer (current + 1) (current + 1) False (index + 1) this1
                   = Inr this'"
          by (cases "if index > 1 then scanLine P line this else Inr this") auto
        have "I this1"
        proof (cases "index > 1")
          case True
          with s1 have "scanLine P line this = Inr this1" by simp
          from step[OF "1.prems"(2) this] show ?thesis .
        next
          case False
          with s1 "1.prems"(2) show ?thesis by simp
        qed
        from "1.IH"(2)[OF inside nCR True lineEnd_def line_def s1 step this r1]
        show ?thesis .
      qed
    qed
  qed
qed


lemma steady_refl: "steady this this"
  by (simp add: steady_def)

lemma steady_trans: "steady a b \<Longrightarrow> steady b c \<Longrightarrow> steady a c"
  by (simp add: steady_def)

lemma steady_setGlobalProperty: "steady this (setGlobalProperty P prop this)"
  by (simp add: steady_def setGlobalProperty_def putGlobalProperties_def invalidate_def Let_def
        split: option.splits)

lemma steady_globalRow: "steady this (fold (setGlobalProperty P) props this)"
  by (rule fold_invariant[where I = "steady this"])
     (auto intro: steady_trans steady_setGlobalProperty steady_refl)

lemma steady_removeEntity: "steady this (removeEntity P line this)"
  by (simp add: steady_def removeEntity_def putEntity_def Let_def split: option.splits)

lemma steady_setEntityProperty:
  "steady this (snd (setEntityProperty P prop (e, this)))"
  by (simp add: steady_def setEntityProperty_def invalidate_def Let_def split: option.splits)

lemma steady_entityRow:
  "steady this (snd (fold (setEntityProperty P) props (e, this)))"
proof -
  have "steady this (snd (fold (setEntityProperty P) props es))" if "steady this (snd es)" for es
    using that
  proof (induction props arbitrary: es)
    case Nil then show ?case by simp
  next
    case (Cons p ps)
    obtain e1 s1 where es: "es = (e1, s1)" by (cases es)
    have "steady s1 (snd (setEntityProperty P p (e1, s1)))" by (rule steady_setEntityProperty)
    with Cons.prems es have "steady this (snd (setEntityProperty P p es))"
      by (auto intro: steady_trans)
    from Cons.IH[OF this] show ?case by simp
  qed
  then show ?thesis by (simp add: steady_refl)
qed

lemma steady_handleTransform:
  "handleTransform P i props this = Inr this' \<Longrightarrow> steady this this'"
  by (auto simp: steady_def handleTransform_def Let_def split: option.splits sum.splits)

lemma steady_storeEntity: "steady this (storeEntity i n e this)"
  by (simp add: storeEntity_def steady_def putEntity_def)

lemma upsertFields_unfold:
  assumes "fold (setEntityProperty P) (splitProperties False entityLine) (entityInHand P i this, this)
           = (e1, this1)"
  shows "upsertFields P i entityLine this =
     (if indexOfNum P (filteredIds (storeEntity i (map_of (entities (data this)) i = None) e1 this1)) i
      then handleTransform P i (splitProperties False entityLine)
             (storeEntity i (map_of (entities (data this)) i = None) e1 this1)
      else Inr (storeEntity i (map_of (entities (data this)) i = None) e1 this1))"
  using assms by (simp add: upsertFields_def Let_def)

lemma steady_upsertFields:
  assumes "upsertFields P i entityLine this = Inr this'"
  shows "steady this this'"
proof -
  obtain e1 this1 where
    f: "fold (setEntityProperty P) (splitProperties False entityLine) (entityInHand P i this, this)
        = (e1, this1)"
    by (cases "fold (setEntityProperty P) (splitProperties False entityLine) (entityInHand P i this, this)")
  have s1: "steady this this1"
    using steady_entityRow[of this P "splitProperties False entityLine" "entityInHand P i this"] f
    by simp
  define this2 where "this2 = storeEntity i (map_of (entities (data this)) i = None) e1 this1"
  have s2: "steady this1 this2" by (simp add: this2_def steady_storeEntity)
  have "steady this2 this'"
    using assms unfolding upsertFields_unfold[OF f] this2_def
    by (auto split: if_splits intro: steady_handleTransform steady_refl)
  with s1 s2 show ?thesis by (blast intro: steady_trans)
qed

lemma steady_upsertEntity:
  "upsertEntity P line this = Inr this' \<Longrightarrow> steady this this'"
  by (auto simp: upsertEntity_def invalidate_def steady_def[of this "_\<lparr>data := _\<rparr>"]
        split: option.splits intro: steady_upsertFields)


lemma parseLine_cases:
  assumes "parseLine P this = Inr this'"
  shows "(\<exists>s. steady this s \<and> this' = s\<lparr>currentLine := []\<rparr>) \<or>
         this' = (timeMarker P (currentLine this) this)\<lparr>currentLine := []\<rparr>"
  using assms
  by (auto simp: parseLine_def Let_def split: if_splits sum.splits
        intro: steady_refl steady_globalRow steady_removeEntity steady_upsertEntity)




lemma timeline_currentLine [simp]: "timeline P (this\<lparr>currentLine := l\<rparr>) = timeline P this"
  by (simp add: timeline_def)






text \<open>\<^verbatim>\<open>parse\<close> returns what \<^verbatim>\<open>_parseBuffer\<close> returns on the reset parser, for the bytes
  given or for the one entry of the archive.\<close>

lemma parse_returns:
  assumes "returnedData (parse P dat filterOption this) = Some d"
  shows "\<exists>buffer. returnedData (parseBuffer P buffer (resetParser P filterOption this)) = Some d \<and>
           (buffer = dat \<and> \<not> isZipped dat \<or> isZipped dat \<and> unzip P dat = Some [buffer])"
proof (cases "isZipped dat")
  case False
  with assms show ?thesis by (auto simp: parse_def)
next
  case True
  with assms obtain buffer where "unzip P dat = Some [buffer]"
    by (auto simp: parse_def returnedData_def split: option.splits list.splits)
  with assms True show ?thesis by (auto simp: parse_def)
qed

lemma matchField_startsWith: "matchField key s = Some r \<Longrightarrow> startsWith s key"
  by (auto simp: matchField_def split: if_splits)

lemma header_not_zipped:
  assumes "headerPattern (decode (slice dat 0 64)) = Some (ty, ver)"
  shows "\<not> isZipped dat"
proof
  assume z: "isZipped dat"
  then have pk: "take 2 dat = ''PK''" and len: "length dat > 1"
    by (auto simp: isZipped_def decode_def stripBOM_def slice_def startsWith_def BOM_def
          split: if_splits)
  then obtain rest where dat: "dat = CHR ''P'' # CHR ''K'' # rest"
    by (cases dat; cases "tl dat") auto
  have "decode (slice dat 0 64) = CHR ''P'' # CHR ''K'' # take 62 rest"
    by (simp add: dat decode_def stripBOM_def slice_def startsWith_def BOM_def)
  then have "headerPattern (decode (slice dat 0 64)) = None"
    by (simp add: headerPattern_def headerFields_def stripBOM_def startsWith_def BOM_def
          matchField_def)
  with assms show False by simp
qed

lemma returnedData_parseBuffer:
  "returnedData (parseBuffer P buffer this) = Some d \<Longrightarrow>
   \<exists>this1. parseContentLoop P buffer 0 0 False 0 (parseHeader buffer this) = Inr this1 \<and>
     frames d = frames (data (finishContent P this1)) \<and>
     isValid d = isValid (data (finishContent P this1)) \<and>
     globalProperties d = globalProperties (data (finishContent P this1)) \<and>
     AcmiData.timeSpan d = AcmiData.timeSpan (data (finishContent P this1)) \<and>
     header d = header (data (finishContent P this1)) \<and>
     map fst (entities d) = map fst (entities (data (finishContent P this1)))"
  by (auto simp: returnedData_def parseBuffer_def parseContent_def Let_def split: sum.splits)




lemma find_eq_member: "(find (\<lambda>v. v = x) xs = None) = (x \<notin> set xs)"
  by (induction xs) auto

lemma invalid_steady: "\<not> isValid (data this) \<Longrightarrow> steady this s \<Longrightarrow> \<not> isValid (data s)"
  by (simp add: steady_def)

lemma isValid_timeMarker: "isValid (data (timeMarker P line this)) = isValid (data this)"
  by (simp add: timeMarker_def Let_def)

lemma invalid_parseLine:
  "\<not> isValid (data this) \<Longrightarrow> parseLine P this = Inr this' \<Longrightarrow> \<not> isValid (data this')"
  by (auto dest!: parseLine_cases dest: invalid_steady simp: isValid_timeMarker)

lemma invalid_loop:
  assumes "\<not> isValid (data this)" and "parseContentLoop P buffer c s pcr idx this = Inr this'"
  shows "\<not> isValid (data this')"
proof (rule loop_invariant[where I = "\<lambda>this. \<not> isValid (data this)", OF _ assms])
  fix line this this'
  assume "\<not> isValid (data this)" "scanLine P line this = Inr this'"
  then show "\<not> isValid (data this')"
    by (rule scanLine_invariant[where I = "\<lambda>this. \<not> isValid (data this)", rotated 2])
       (auto dest: invalid_parseLine)
qed

lemma invalid_finishContent:
  "\<not> isValid (data this) \<Longrightarrow> \<not> isValid (data (finishContent P this))"
  by (auto simp: finishContent_def Let_def invalidate_def split: option.splits)

text \<open>
  C1 (amended): when the first 64 bytes match the header pattern and the file type is not
  \<^verbatim>\<open>text/acmi/tacview\<close> or the version is neither 2.1 nor 2.2, the data that
  \<^verbatim>\<open>parse\<close> returns has \<open>isValid = false\<close>. The content loop runs all the same.
\<close>

theorem rejected_header_invalidates:
  assumes "headerPattern (decode (slice dat 0 64)) = Some (ty, ver)"
    and "\<not> (ty = acmiType \<and> ver \<in> set acmiVersions)"
    and "returnedData (parse P dat filterOption this) = Some d"
  shows "\<not> isValid d"
proof -
  from parse_returns[OF assms(3)] obtain buffer where
    b: "returnedData (parseBuffer P buffer (resetParser P filterOption this)) = Some d"
    and w: "buffer = dat \<and> \<not> isZipped dat \<or> isZipped dat \<and> unzip P dat = Some [buffer]"
    by blast
  from assms(1) have "\<not> isZipped dat" by (rule header_not_zipped)
  with w have bd: "buffer = dat" by blast
  from returnedData_parseBuffer[OF b] obtain this1 where
    l: "parseContentLoop P buffer 0 0 False 0 (parseHeader buffer (resetParser P filterOption this))
        = Inr this1"
    and v: "isValid d = isValid (data (finishContent P this1))" by blast
  have "\<not> isValid (data (parseHeader buffer (resetParser P filterOption this)))"
    using assms(1,2) unfolding bd
    by (auto simp: parseHeader_def Let_def isValidType_def isValidVersion_def find_eq_member)
  from invalid_finishContent[OF invalid_loop[OF this l]] v show ?thesis by simp
qed

text \<open>
  C1 (as stated, it fails): a rejected header does not stop the parser before the content
  loop. In a file whose type is \<^verbatim>\<open>text/plain\<close> the loop still reads the reference
  time, the entity \<^verbatim>\<open>a\<close> and the time marker, and two frames are returned.
\<close>

theorem rejected_header_still_parsed:
  "map_option (map timeStamp \<circ> frames) (exampleParse wrongTypeFile None)
     = Some [Some 0, Some 1] \<and>
   map_option (map fst \<circ> entities) (exampleParse wrongTypeFile None)
     = Some [Some 10] \<and>
   map_option (referenceTime \<circ> globalProperties) (exampleParse wrongTypeFile None)
     = Some (Some 1704067200000)"
  by code_simp

theorem rejected_header_invalidates_witness:
  "headerPattern (decode (slice wrongTypeFile 0 64)) = Some (''text/plain'', ''2.2'') \<and>
   \<not> (''text/plain'' = acmiType \<and> ''2.2'' \<in> set acmiVersions) \<and>
   map_option isValid (exampleParse wrongTypeFile None)
     = Some False"
proof -
  have h: "headerPattern (decode (slice wrongTypeFile 0 64)) = Some (''text/plain'', ''2.2'')"
    by code_simp
  have n: "\<not> (''text/plain'' = acmiType \<and> ''2.2'' \<in> set acmiVersions)"
    by (simp add: acmiType_def)
  have "exampleParse wrongTypeFile None \<noteq> None"
    by code_simp
  then obtain d where
    d: "exampleParse wrongTypeFile None = Some d"
    by auto
  from rejected_header_invalidates[OF h _ d[unfolded exampleParse_def]] n d h show ?thesis by simp
qed

section \<open>The time span of the returned data\<close>

text \<open>Only the step after the loop writes the time span of the data.\<close>

lemma timeSpan_timeMarker:
  "AcmiData.timeSpan (data (timeMarker P line this)) = AcmiData.timeSpan (data this)"
  by (simp add: timeMarker_def Let_def)

lemma unset_parseLine:
  "AcmiData.timeSpan (data this) = newTimeSpan \<Longrightarrow> parseLine P this = Inr this' \<Longrightarrow>
   AcmiData.timeSpan (data this') = newTimeSpan"
  by (auto dest!: parseLine_cases simp: steady_def timeSpan_timeMarker)

lemma unset_loop:
  assumes "AcmiData.timeSpan (data this) = newTimeSpan"
    and "parseContentLoop P buffer c s pcr idx this = Inr this'"
  shows "AcmiData.timeSpan (data this') = newTimeSpan"
proof (rule loop_invariant[where I = "\<lambda>this. AcmiData.timeSpan (data this) = newTimeSpan", OF _ assms])
  fix line this this'
  assume "AcmiData.timeSpan (data this) = newTimeSpan" "scanLine P line this = Inr this'"
  then show "AcmiData.timeSpan (data this') = newTimeSpan"
    by (rule scanLine_invariant[where I = "\<lambda>this. AcmiData.timeSpan (data this) = newTimeSpan",
          rotated 2])
       (auto dest: unset_parseLine)
qed

lemma unset_reset:
  "AcmiData.timeSpan (data (parseHeader buffer (resetParser P filterOption this))) = newTimeSpan"
  by (simp add: parseHeader_def resetParser_def newAcmiData_def Let_def split: option.splits)

lemma finishContent_frames:
  "frames (data (finishContent P this)) =
     (if frames (data this) \<noteq> [] then frames (data this) @ [currentFrame this] else [])"
  by (auto simp: finishContent_def Let_def invalidate_def split: option.splits)

lemma finishContent_globalProperties:
  "globalProperties (data (finishContent P this)) = globalProperties (data this)"
  by (auto simp: finishContent_def Let_def invalidate_def split: option.splits)

lemma finishContent_timeSpan:
  assumes "frames (data (finishContent P this)) \<noteq> []"
  shows "case firstNonEmptyFrame (frames (data (finishContent P this))) of
           None \<Rightarrow> \<not> isValid (data (finishContent P this))
         | Some frame \<Rightarrow>
             (if referenceTime (globalProperties (data (finishContent P this))) \<noteq> None then
                AcmiData.timeSpan (data (finishContent P this)) =
                  \<lparr>start = addSeconds P (referenceTime (globalProperties (data (finishContent P this))))
                             (timeStamp frame),
                   end' = addSeconds P (referenceTime (globalProperties (data (finishContent P this))))
                             (timeStamp (last (frames (data (finishContent P this)))))\<rparr>
              else \<not> isValid (data (finishContent P this)))"
proof -
  from assms have ne: "frames (data this) \<noteq> []" by (auto simp: finishContent_frames split: if_splits)
  then show ?thesis
    by (auto simp: finishContent_def Let_def invalidate_def split: option.splits)
qed

text \<open>
  C6 (amended): after \<^verbatim>\<open>parse\<close> returns data whose frame list is not empty: if the
  reference time is valid and a frame has a non-empty scene, the time span of the data
  starts at the reference time plus the time stamp of the first such frame and ends at the
  reference time plus the time stamp of the last frame; if the reference time is invalid
  or no frame has a non-empty scene, the data is invalid. When the frame list is returned
  empty (no time marker changed the time stamp), the step was skipped by its guard
  \<^verbatim>\<open>frames.length > 0\<close> and the time span of the data is left unset.
\<close>

theorem timeSpan_of_returned_data:
  assumes "returnedData (parse P dat filterOption this) = Some d"
  shows "(frames d \<noteq> [] \<longrightarrow>
            (\<forall>frame. referenceTime (globalProperties d) \<noteq> None \<and>
               firstNonEmptyFrame (frames d) = Some frame \<longrightarrow>
               AcmiData.timeSpan d =
                 \<lparr>start = addSeconds P (referenceTime (globalProperties d)) (timeStamp frame),
                  end' = addSeconds P (referenceTime (globalProperties d))
                           (timeStamp (last (frames d)))\<rparr>) \<and>
            (referenceTime (globalProperties d) = None \<or> firstNonEmptyFrame (frames d) = None \<longrightarrow>
               \<not> isValid d)) \<and>
         (frames d = [] \<longrightarrow> AcmiData.timeSpan d = newTimeSpan)"
proof -
  from parse_returns[OF assms(1)] obtain buffer where
    b: "returnedData (parseBuffer P buffer (resetParser P filterOption this)) = Some d" by blast
  from returnedData_parseBuffer[OF b] obtain this1 where
    l: "parseContentLoop P buffer 0 0 False 0 (parseHeader buffer (resetParser P filterOption this))
        = Inr this1"
    and f: "frames d = frames (data (finishContent P this1))"
    and v: "isValid d = isValid (data (finishContent P this1))"
    and g: "globalProperties d = globalProperties (data (finishContent P this1))"
    and t: "AcmiData.timeSpan d = AcmiData.timeSpan (data (finishContent P this1))" by blast
  have filled: ?thesis if ne: "frames d \<noteq> []"
  proof -
    from ne f have "frames (data (finishContent P this1)) \<noteq> []" by simp
    from finishContent_timeSpan[OF this] ne show ?thesis
      unfolding f v g t by (auto split: option.splits if_splits)
  qed
  have empty: ?thesis if e: "frames d = []"
  proof -
    have "AcmiData.timeSpan (data this1) = newTimeSpan"
      using unset_loop[OF unset_reset l] .
    moreover have "frames (data this1) = []"
      using e f by (auto simp: finishContent_frames split: if_splits)
    ultimately have "AcmiData.timeSpan (data (finishContent P this1)) = newTimeSpan"
      by (simp add: finishContent_def)
    with e t show ?thesis by simp
  qed
  from filled empty show ?thesis by blast
qed

text \<open>
  C6 (as stated, it fails): a file without time markers has no reference time and no
  frame, and its data is returned valid, with an empty frame list.
\<close>

theorem no_marker_file_stays_valid:
  "map_option isValid (exampleParse noMarkerFile None) = Some True \<and>
   map_option frames (exampleParse noMarkerFile None) = Some [] \<and>
   map_option (referenceTime \<circ> globalProperties) (exampleParse noMarkerFile None) = Some None"
  by code_simp

theorem timeSpan_of_returned_data_witness:
  "map_option (map timeStamp \<circ> frames) (exampleParse twoFrameFile None)
     = Some [Some 0, Some 1] \<and>
   map_option (map_option timeStamp \<circ> firstNonEmptyFrame \<circ> frames) (exampleParse twoFrameFile None)
     = Some (Some (Some 0)) \<and>
   map_option (referenceTime \<circ> globalProperties) (exampleParse twoFrameFile None)
     = Some (Some 1704067200000) \<and>
   map_option AcmiData.timeSpan (exampleParse twoFrameFile None)
     = Some \<lparr>start = Some 1704067200000, end' = Some 1704067201000\<rparr>"
proof -
  let ?R = "exampleParse twoFrameFile None"
  have a: "map_option (map timeStamp \<circ> frames) ?R = Some [Some 0, Some 1]" by code_simp
  have b: "map_option (map_option timeStamp \<circ> firstNonEmptyFrame \<circ> frames) ?R = Some (Some (Some 0))"
    by code_simp
  have c: "map_option (referenceTime \<circ> globalProperties) ?R = Some (Some 1704067200000)"
    by code_simp
  from a obtain d where d: "?R = Some d" and ts: "map timeStamp (frames d) = [Some 0, Some 1]"
    by auto
  from ts have ne: "frames d \<noteq> []" by auto
  from b d obtain frame where fr: "firstNonEmptyFrame (frames d) = Some frame"
    and frt: "timeStamp frame = Some 0" by auto
  from c d have rt: "referenceTime (globalProperties d) = Some 1704067200000" by simp
  have "timeStamp (last (frames d)) = last (map timeStamp (frames d))"
    using ne by (simp add: last_map)
  then have lt: "timeStamp (last (frames d)) = Some 1" using ts by simp
  from timeSpan_of_returned_data[OF d[unfolded exampleParse_def]] ne fr rt
  have "AcmiData.timeSpan d =
          \<lparr>start = addSeconds examplePlatform (Some 1704067200000) (timeStamp frame),
           end' = addSeconds examplePlatform (Some 1704067200000) (timeStamp (last (frames d)))\<rparr>"
    by simp
  then have "AcmiData.timeSpan d = \<lparr>start = Some 1704067200000, end' = Some 1704067201000\<rparr>"
    by (simp add: frt lt examplePlatform_def exAddSeconds_def truncateRat_def)
  with a b c d show ?thesis by simp
qed

section \<open>Entity rows\<close>

text \<open>Reading the fields of an entity row changes nothing of the parser but, at most,
  the validity of the data.\<close>

lemma setEntityProperty_parser:
  "snd (setEntityProperty P prop (e, this)) = this \<or>
   snd (setEntityProperty P prop (e, this)) = invalidate this"
  by (simp add: setEntityProperty_def Let_def split: option.splits)

lemma invalidate_idem [simp]: "invalidate (invalidate this) = invalidate this"
  by (simp add: invalidate_def)

lemma entityRow_parser:
  "snd (fold (setEntityProperty P) props (e, this)) = this \<or>
   snd (fold (setEntityProperty P) props (e, this)) = invalidate this"
proof (induction props arbitrary: e this)
  case Nil
  then show ?case by simp
next
  case (Cons p ps)
  obtain e1 s1 where st: "setEntityProperty P p (e, this) = (e1, s1)"
    by (cases "setEntityProperty P p (e, this)")
  from setEntityProperty_parser[of P p e this] st
  have "s1 = this \<or> s1 = invalidate this" by simp
  with Cons.IH[of e1 s1] st show ?case by auto
qed

lemma indexOfNum_append: "indexOfNum P ids i \<Longrightarrow> indexOfNum P (ids @ js) i"
  by (simp add: indexOfNum_def)

lemma indexOfNum_snoc: "indexOfNum P (ids @ [i]) i = (indexOfNum P ids i \<or> strictEq P i i)"
  by (simp add: indexOfNum_def)

lemma indexOf_T: "indexOf (''T='' @ v) CHR ''='' = Some 1"
  by simp

lemma map_of_update_same: "map_of (AList.update k v al) k = Some v"
  by (simp add: update_conv')

text \<open>The test \<^verbatim>\<open>filteredIds.indexOf(id) >= 0\<close> of an entity row comes after the filter
  decision has pushed the id of a new entity that passes. Read on the parser before the
  row, it holds when the id was kept by an earlier row, or when the entity is new, passes
  the filter as the row leaves it, and has an id that \<^verbatim>\<open>indexOf\<close> finds (\<^verbatim>\<open>NaN\<close> is
  never found). Then the \<^verbatim>\<open>T=\<close> field is decoded into the current scene; otherwise the
  row leaves the scene as it is.\<close>

lemma storeEntity_kept:
  assumes "this1 = this \<or> this1 = invalidate this"
  shows "indexOfNum P (filteredIds (storeEntity i (map_of (entities (data this)) i = None) e1 this1)) i
         = (indexOfNum P (filteredIds this) i \<or>
            (map_of (entities (data this)) i = None \<and> strictEq P i i \<and>
             keepEntity (filter' this) e1))"
  using assms by (auto simp: storeEntity_def putEntity_def invalidate_def indexOfNum_snoc)

lemma upsertFields_kept_transform:
  assumes kept: "indexOfNum P (filteredIds this) i \<or>
      (map_of (entities (data this)) i = None \<and> strictEq P i i \<and>
       keepEntity (filter' this) (rowEntity P i entityLine this))"
    and T: "find (\<lambda>prop. startsWith prop ''T='') (splitProperties False entityLine)
            = Some (''T='' @ v)"
    and dec: "decodeCoords P (refLong this) (refLat this) (splitOn CHR ''|'' v)
                (startTransform P (map_of (scene (currentFrame this)) i)) = Inr transform"
  shows "\<exists>this'. upsertFields P i entityLine this = Inr this' \<and>
           scene (currentFrame this') = AList.update i transform (scene (currentFrame this))"
proof -
  obtain e1 this1 where
    f: "fold (setEntityProperty P) (splitProperties False entityLine) (entityInHand P i this, this)
        = (e1, this1)"
    by (cases "fold (setEntityProperty P) (splitProperties False entityLine) (entityInHand P i this, this)")
  from entityRow_parser[of P "splitProperties False entityLine" "entityInHand P i this" this] f
  have t1: "this1 = this \<or> this1 = invalidate this" by simp
  have e1: "rowEntity P i entityLine this = e1" by (simp add: rowEntity_def f)
  define this2 where "this2 = storeEntity i (map_of (entities (data this)) i = None) e1 this1"
  have same: "currentFrame this2 = currentFrame this" "refLong this2 = refLong this"
    "refLat this2 = refLat this"
    using t1 by (auto simp: this2_def storeEntity_def putEntity_def invalidate_def)
  have k2: "indexOfNum P (filteredIds this2) i"
    unfolding this2_def storeEntity_kept[OF t1] using kept e1 by simp
  have "handleTransform P i (splitProperties False entityLine) this2 =
          Inr (this2\<lparr>currentFrame := (currentFrame this2)
                 \<lparr>scene := AList.update i transform (scene (currentFrame this2))\<rparr>\<rparr>)"
    using T dec by (simp add: handleTransform_def Let_def same)
  then show ?thesis
    unfolding upsertFields_unfold[OF f] this2_def[symmetric] using k2 by (simp add: same)
qed

lemma upsertFields_not_kept:
  assumes "\<not> indexOfNum P (filteredIds this) i"
    and "\<not> (map_of (entities (data this)) i = None \<and> strictEq P i i \<and>
            keepEntity (filter' this) (rowEntity P i entityLine this))"
  shows "\<exists>this'. upsertFields P i entityLine this = Inr this' \<and>
           scene (currentFrame this') = scene (currentFrame this)"
proof -
  obtain e1 this1 where
    f: "fold (setEntityProperty P) (splitProperties False entityLine) (entityInHand P i this, this)
        = (e1, this1)"
    by (cases "fold (setEntityProperty P) (splitProperties False entityLine) (entityInHand P i this, this)")
  from entityRow_parser[of P "splitProperties False entityLine" "entityInHand P i this" this] f
  have t1: "this1 = this \<or> this1 = invalidate this" by simp
  have e1: "rowEntity P i entityLine this = e1" by (simp add: rowEntity_def f)
  define this2 where "this2 = storeEntity i (map_of (entities (data this)) i = None) e1 this1"
  have same: "currentFrame this2 = currentFrame this"
    using t1 by (auto simp: this2_def storeEntity_def putEntity_def invalidate_def)
  have k2: "\<not> indexOfNum P (filteredIds this2) i"
    unfolding this2_def storeEntity_kept[OF t1] using assms e1 by simp
  show ?thesis
    unfolding upsertFields_unfold[OF f] this2_def[symmetric] using k2 by (simp add: same)
qed

lemma parseLine_kept_transform:
  assumes "currentLine this = line"
    and "\<not> startsWith line ''0,''" and "\<not> startsWith line ''#''" and "\<not> startsWith line ''-''"
    and "indexOf line CHR '','' = Some commaPos"
    and "indexOfNum P (filteredIds this) (parseInt16 P (slice line 0 commaPos)) \<or>
      (map_of (entities (data this)) (parseInt16 P (slice line 0 commaPos)) = None \<and>
       strictEq P (parseInt16 P (slice line 0 commaPos)) (parseInt16 P (slice line 0 commaPos)) \<and>
       keepEntity (filter' this)
         (rowEntity P (parseInt16 P (slice line 0 commaPos)) (drop (commaPos + 1) line) this))"
    and "find (\<lambda>prop. startsWith prop ''T='') (splitProperties False (drop (commaPos + 1) line))
            = Some (''T='' @ v)"
    and "decodeCoords P (refLong this) (refLat this) (splitOn CHR ''|'' v)
           (startTransform P (map_of (scene (currentFrame this)) (parseInt16 P (slice line 0 commaPos))))
         = Inr transform"
  shows "\<exists>this'. parseLine P this = Inr this' \<and>
           scene (currentFrame this') =
             AList.update (parseInt16 P (slice line 0 commaPos)) transform (scene (currentFrame this))"
proof -
  have ne: "\<not> startsWith line ''0,Event''"
    using assms(2) by (auto simp: startsWith_def dest: arg_cong[where f = "take 2"])
  from upsertFields_kept_transform[OF assms(6,7,8)] obtain this' where
    u: "upsertFields P (parseInt16 P (slice line 0 commaPos)) (drop (commaPos + 1) line) this = Inr this'"
    and sc: "scene (currentFrame this') =
             AList.update (parseInt16 P (slice line 0 commaPos)) transform (scene (currentFrame this))"
    by blast
  have "parseLine P this = Inr (this'\<lparr>currentLine := []\<rparr>)"
    using assms(1-5) ne u by (simp add: parseLine_def upsertEntity_def Let_def)
  with sc show ?thesis by simp
qed

lemma decodePosition_tokens:
  "decodePosition P lo la (x # y # z # rest) t0 =
     t0\<lparr>longitude := (if x \<noteq> [] then numAdd P lo (toNumber P x) else longitude t0),
        latitude := (if y \<noteq> [] then numAdd P la (toNumber P y) else latitude t0),
        altitude := (if z \<noteq> [] then toNumber P z else altitude t0)\<rparr>"
  by (simp add: decodePosition_def Let_def)

lemma decodeCoords_position:
  "\<exists>t. decodeCoords P lo la (x # y # z # rest) t0 = Inr t \<and>
     longitude t = (if x \<noteq> [] then numAdd P lo (toNumber P x) else longitude t0) \<and>
     latitude t = (if y \<noteq> [] then numAdd P la (toNumber P y) else latitude t0)"
  by (simp add: decodeCoords_def decodePosition_tokens Let_def)

lemma decodeCoords_six:
  "decodeCoords P lo la (a # b # c # d # e # f # rest) t0 =
     Inr \<lparr>longitude = (if a \<noteq> [] then numAdd P lo (toNumber P a) else longitude t0),
          latitude = (if b \<noteq> [] then numAdd P la (toNumber P b) else latitude t0),
          altitude = (if c \<noteq> [] then toNumber P c else altitude t0),
          roll = (if d \<noteq> [] then Some (toNumber P d) else roll t0),
          pitch = (if e \<noteq> [] then Some (toNumber P e) else pitch t0),
          yaw = (if f \<noteq> [] then Some (toNumber P f) else yaw t0)\<rparr>"
  by (cases t0) (simp add: decodeCoords_def decodePosition_tokens Let_def)

text \<open>
  C9: for every active reference longitude \<open>refLong this\<close> and latitude
  \<open>refLat this\<close>, and every row of an entity the parser keeps (its id was kept by an
  earlier row, or this is the first row of the entity, which then passes the filter and has
  a number for its id) whose \<^verbatim>\<open>T=\<close> value has at least its three position tokens, the
  first two, \<open>x\<close> and \<open>y\<close>, not empty: the row puts into the current scene, at the
  entity's id, a transform whose longitude is the reference longitude plus \<^verbatim>\<open>+x\<close> and
  whose latitude is the reference latitude plus \<^verbatim>\<open>+y\<close>, each the one addition of the
  platform's numbers (\<open>numAdd\<close>, the \<^verbatim>\<open>+\<close> of two doubles).
\<close>

theorem reference_decoding:
  assumes "currentLine this = line"
    and "\<not> startsWith line ''0,''" and "\<not> startsWith line ''#''" and "\<not> startsWith line ''-''"
    and "indexOf line CHR '','' = Some commaPos"
    and "i = parseInt16 P (slice line 0 commaPos)"
    and "indexOfNum P (filteredIds this) i \<or>
         (map_of (entities (data this)) i = None \<and> strictEq P i i \<and>
          keepEntity (filter' this) (rowEntity P i (drop (commaPos + 1) line) this))"
    and "find (\<lambda>prop. startsWith prop ''T='') (splitProperties False (drop (commaPos + 1) line))
            = Some (''T='' @ v)"
    and "splitOn CHR ''|'' v = x # y # z # rest"
    and "x \<noteq> []" and "y \<noteq> []"
  shows "\<exists>transform.
           sceneAfter (parseLine P this) = Some (AList.update i transform (scene (currentFrame this))) \<and>
           longitude transform = numAdd P (refLong this) (toNumber P x) \<and>
           latitude transform = numAdd P (refLat this) (toNumber P y)"
proof -
  from decodeCoords_position[of P "refLong this" "refLat this" x y z rest
      "startTransform P (map_of (scene (currentFrame this)) i)"] assms(10,11)
  obtain t where
    dec: "decodeCoords P (refLong this) (refLat this) (splitOn CHR ''|'' v)
            (startTransform P (map_of (scene (currentFrame this)) i)) = Inr t"
    and lo: "longitude t = numAdd P (refLong this) (toNumber P x)"
    and la: "latitude t = numAdd P (refLat this) (toNumber P y)"
    unfolding assms(9) by auto
  from parseLine_kept_transform[OF assms(1-5) assms(7)[unfolded assms(6)] assms(8) dec[unfolded assms(6)]]
  have "sceneAfter (parseLine P this) = Some (AList.update i t (scene (currentFrame this)))"
    by (auto simp: sceneAfter_def assms(6))
  with lo la show ?thesis by blast
qed

text \<open>Two rows on the platform of the examples, the reference longitude 30 and the
  reference latitude 40: the first row of the entity \<^verbatim>\<open>a\<close>, of types \<^verbatim>\<open>Air\<close> and
  \<^verbatim>\<open>FixedWing\<close>, under the filter \<^verbatim>\<open>["Ground"]\<close>, and a later row of the entity,
  already kept.\<close>

theorem reference_decoding_witness:
  "(currentLine (firstRowParser (Some [''Ground'']) ''a,Type=Air+FixedWing,T=1|2|3'')
      = ''a,Type=Air+FixedWing,T=1|2|3'' \<and>
    \<not> startsWith ''a,Type=Air+FixedWing,T=1|2|3'' ''0,'' \<and>
    \<not> startsWith ''a,Type=Air+FixedWing,T=1|2|3'' ''#'' \<and>
    \<not> startsWith ''a,Type=Air+FixedWing,T=1|2|3'' ''-'' \<and>
    indexOf ''a,Type=Air+FixedWing,T=1|2|3'' CHR '','' = Some 1 \<and>
    Some 10 = parseInt16 examplePlatform (slice ''a,Type=Air+FixedWing,T=1|2|3'' 0 1) \<and>
    filteredIds (firstRowParser (Some [''Ground'']) ''a,Type=Air+FixedWing,T=1|2|3'') = [] \<and>
    map_of (entities (data (firstRowParser (Some [''Ground'']) ''a,Type=Air+FixedWing,T=1|2|3'')))
      (Some 10) = None \<and>
    strictEq examplePlatform (Some 10) (Some 10) \<and>
    filter' (firstRowParser (Some [''Ground'']) ''a,Type=Air+FixedWing,T=1|2|3'') = [''Ground''] \<and>
    keepEntity (filter' (firstRowParser (Some [''Ground'']) ''a,Type=Air+FixedWing,T=1|2|3''))
      (rowEntity examplePlatform (Some 10) (drop (1 + 1) ''a,Type=Air+FixedWing,T=1|2|3'')
         (firstRowParser (Some [''Ground'']) ''a,Type=Air+FixedWing,T=1|2|3'')) \<and>
    find (\<lambda>prop. startsWith prop ''T='')
        (splitProperties False (drop (1 + 1) ''a,Type=Air+FixedWing,T=1|2|3''))
      = Some (''T='' @ ''1|2|3'') \<and>
    splitOn CHR ''|'' ''1|2|3'' = [''1'', ''2'', ''3''] \<and>
    refLong (firstRowParser (Some [''Ground'']) ''a,Type=Air+FixedWing,T=1|2|3'') = Some 30 \<and>
    refLat (firstRowParser (Some [''Ground'']) ''a,Type=Air+FixedWing,T=1|2|3'') = Some 40 \<and>
    (\<exists>transform.
       sceneAfter (parseLine examplePlatform
           (firstRowParser (Some [''Ground'']) ''a,Type=Air+FixedWing,T=1|2|3''))
         = Some (AList.update (Some 10) transform
             (scene (currentFrame (firstRowParser (Some [''Ground'']) ''a,Type=Air+FixedWing,T=1|2|3'')))) \<and>
       longitude transform = Some 31 \<and> latitude transform = Some 42)) \<and>
   (currentLine (keptParser ''a,T=1|2|3'') = ''a,T=1|2|3'' \<and>
    \<not> startsWith ''a,T=1|2|3'' ''0,'' \<and> \<not> startsWith ''a,T=1|2|3'' ''#'' \<and>
    \<not> startsWith ''a,T=1|2|3'' ''-'' \<and>
    indexOf ''a,T=1|2|3'' CHR '','' = Some 1 \<and>
    Some 10 = parseInt16 examplePlatform (slice ''a,T=1|2|3'' 0 1) \<and>
    indexOfNum examplePlatform (filteredIds (keptParser ''a,T=1|2|3'')) (Some 10) \<and>
    find (\<lambda>prop. startsWith prop ''T='') (splitProperties False (drop (1 + 1) ''a,T=1|2|3''))
      = Some (''T='' @ ''1|2|3'') \<and>
    splitOn CHR ''|'' ''1|2|3'' = [''1'', ''2'', ''3''] \<and>
    refLong (keptParser ''a,T=1|2|3'') = Some 30 \<and> refLat (keptParser ''a,T=1|2|3'') = Some 40 \<and>
    (\<exists>transform.
       sceneAfter (parseLine examplePlatform (keptParser ''a,T=1|2|3''))
         = Some (AList.update (Some 10) transform (scene (currentFrame (keptParser ''a,T=1|2|3'')))) \<and>
       longitude transform = Some 31 \<and> latitude transform = Some 42))"
proof -
  have n: "numAdd examplePlatform (Some 30) (toNumber examplePlatform ''1'') = Some 31"
    "numAdd examplePlatform (Some 40) (toNumber examplePlatform ''2'') = Some 42"
    by code_simp+
  have h9: "splitOn CHR ''|'' ''1|2|3'' = [''1'', ''2'', ''3'']" by simp
  let ?f = "''a,Type=Air+FixedWing,T=1|2|3''"
  let ?s = "firstRowParser (Some [''Ground'']) ?f"
  have f1: "currentLine ?s = ?f" by (simp add: firstRowParser_def)
  have f2: "\<not> startsWith ?f ''0,''" "\<not> startsWith ?f ''#''" "\<not> startsWith ?f ''-''"
    by (simp_all add: startsWith_def)
  have f5: "indexOf ?f CHR '','' = Some 1" by simp
  have f6: "Some 10 = parseInt16 examplePlatform (slice ?f 0 1)" by code_simp
  have f7: "filteredIds ?s = []" "filter' ?s = [''Ground'']"
    by (simp_all add: firstRowParser_def exampleParser_def resetParser_def)
  have f8: "map_of (entities (data ?s)) (Some 10) = None \<and>
    strictEq examplePlatform (Some 10) (Some 10) \<and>
    keepEntity (filter' ?s) (rowEntity examplePlatform (Some 10) (drop (1 + 1) ?f) ?s)"
    by code_simp
  have f9: "find (\<lambda>prop. startsWith prop ''T='') (splitProperties False (drop (1 + 1) ?f))
      = Some (''T='' @ ''1|2|3'')"
    by code_simp
  have fr: "refLong ?s = Some 30" "refLat ?s = Some 40"
    by (simp_all add: firstRowParser_def)
  from reference_decoding[OF f1 f2 f5 f6 disjI2[OF f8] f9 h9] fr n
  have first: "\<exists>transform.
       sceneAfter (parseLine examplePlatform ?s)
         = Some (AList.update (Some 10) transform (scene (currentFrame ?s))) \<and>
       longitude transform = Some 31 \<and> latitude transform = Some 42"
    by simp
  let ?l = "''a,T=1|2|3''"
  have h1: "currentLine (keptParser ?l) = ?l" by (simp add: keptParser_def)
  have h2: "\<not> startsWith ?l ''0,''" "\<not> startsWith ?l ''#''" "\<not> startsWith ?l ''-''"
    by (simp_all add: startsWith_def)
  have h5: "indexOf ?l CHR '','' = Some 1" by simp
  have h6: "Some 10 = parseInt16 examplePlatform (slice ?l 0 1)" by code_simp
  have h7: "indexOfNum examplePlatform (filteredIds (keptParser ?l)) (Some 10)" by code_simp
  have h8: "find (\<lambda>prop. startsWith prop ''T='') (splitProperties False (drop (1 + 1) ?l))
     = Some (''T='' @ ''1|2|3'')" by (simp add: startsWith_def)
  have r: "refLong (keptParser ?l) = Some 30" "refLat (keptParser ?l) = Some 40"
    by (simp_all add: keptParser_def)
  from reference_decoding[OF h1 h2 h5 h6 disjI1[OF h7] h8 h9] r n
  have later: "\<exists>transform.
      sceneAfter (parseLine examplePlatform (keptParser ?l))
        = Some (AList.update (Some 10) transform (scene (currentFrame (keptParser ?l)))) \<and>
      longitude transform = Some 31 \<and> latitude transform = Some 42"
    by simp
  from f1 f2 f5 f6 f7 f8 f9 h9 fr first h1 h2 h5 h6 h7 h8 r later show ?thesis by blast
qed

text \<open>
  C3 (amended): for every row of an entity the parser keeps (its id was kept by an earlier
  row, or this is the first row of the entity, which then passes the filter and has a
  number for its id) whose \<^verbatim>\<open>T=\<close> value splits on \<^verbatim>\<open>|\<close> into six tokens or more,
  \<open>a|b|c|d|e|f|...\<close>, the transform put into the current scene takes its longitude
  offset, latitude offset and altitude from \<open>a\<close>, \<open>b\<close>, \<open>c\<close> and its roll, pitch
  and yaw from \<open>d\<close>, \<open>e\<close>, \<open>f\<close> (positions 3 to 5); the tokens after them (\<open>g\<close>,
  \<open>h\<close>, \<open>i\<close> of the nine-slot form) are ignored. An empty token inherits the component
  of the entity's transform in the current scene (zero, or no angle, when it has none).
\<close>

theorem transform_slots:
  assumes "currentLine this = line"
    and "\<not> startsWith line ''0,''" and "\<not> startsWith line ''#''" and "\<not> startsWith line ''-''"
    and "indexOf line CHR '','' = Some commaPos"
    and "i = parseInt16 P (slice line 0 commaPos)"
    and "indexOfNum P (filteredIds this) i \<or>
         (map_of (entities (data this)) i = None \<and> strictEq P i i \<and>
          keepEntity (filter' this) (rowEntity P i (drop (commaPos + 1) line) this))"
    and "find (\<lambda>prop. startsWith prop ''T='') (splitProperties False (drop (commaPos + 1) line))
            = Some (''T='' @ v)"
    and "splitOn CHR ''|'' v = a # b # c # d # e # f # rest"
    and "prior = startTransform P (map_of (scene (currentFrame this)) i)"
  shows "sceneAfter (parseLine P this) =
           Some (AList.update i
             \<lparr>longitude = (if a \<noteq> [] then numAdd P (refLong this) (toNumber P a) else longitude prior),
              latitude = (if b \<noteq> [] then numAdd P (refLat this) (toNumber P b) else latitude prior),
              altitude = (if c \<noteq> [] then toNumber P c else altitude prior),
              roll = (if d \<noteq> [] then Some (toNumber P d) else roll prior),
              pitch = (if e \<noteq> [] then Some (toNumber P e) else pitch prior),
              yaw = (if f \<noteq> [] then Some (toNumber P f) else yaw prior)\<rparr>
             (scene (currentFrame this)))"
proof -
  have dec: "decodeCoords P (refLong this) (refLat this) (splitOn CHR ''|'' v)
      (startTransform P (map_of (scene (currentFrame this)) (parseInt16 P (slice line 0 commaPos))))
    = Inr \<lparr>longitude = (if a \<noteq> [] then numAdd P (refLong this) (toNumber P a) else longitude prior),
              latitude = (if b \<noteq> [] then numAdd P (refLat this) (toNumber P b) else latitude prior),
              altitude = (if c \<noteq> [] then toNumber P c else altitude prior),
              roll = (if d \<noteq> [] then Some (toNumber P d) else roll prior),
              pitch = (if e \<noteq> [] then Some (toNumber P e) else pitch prior),
              yaw = (if f \<noteq> [] then Some (toNumber P f) else yaw prior)\<rparr>"
    unfolding assms(9) decodeCoords_six assms(10) assms(6) by simp
  from parseLine_kept_transform[OF assms(1-5) assms(7)[unfolded assms(6)] assms(8) dec]
  show ?thesis by (auto simp: sceneAfter_def assms(6))
qed

text \<open>
  C3 (as stated, it fails): in the nine-slot row \<^verbatim>\<open>T=1|2|3|10|20|30|40|50|60\<close> the
  roll, pitch and yaw are 10, 20, 30, the slots \<open>d\<close>, \<open>e\<close>, \<open>f\<close>, and not 30, 40,
  50, the slots \<open>f\<close>, \<open>g\<close>, \<open>h\<close>.
\<close>

theorem nine_slots_read_d_e_f:
  "map_option (map (angles \<circ> snd) \<circ> scene \<circ> hd \<circ> frames) (exampleParse nineSlotFile None)
     = Some [(Some (Some 10), Some (Some 20), Some (Some 30))] \<and>
   splitOn CHR ''|'' ''1|2|3|10|20|30|40|50|60''
     = [''1'', ''2'', ''3'', ''10'', ''20'', ''30'', ''40'', ''50'', ''60''] \<and>
   toNumber examplePlatform ''30'' = Some 30 \<and> toNumber examplePlatform ''40'' = Some 40 \<and>
   toNumber examplePlatform ''50'' = Some 50"
  by code_simp

text \<open>Two rows on the platform of the examples, the reference longitude 30 and the
  reference latitude 40: the nine-slot row above as the first row of the entity \<^verbatim>\<open>a\<close>,
  with no filter, and a later row of the entity, already kept, whose empty tokens inherit
  the latitude and the pitch of its transform in the current scene.\<close>

theorem transform_slots_witness:
  "(currentLine (firstRowParser None ''a,T=1|2|3|10|20|30|40|50|60'')
      = ''a,T=1|2|3|10|20|30|40|50|60'' \<and>
    \<not> startsWith ''a,T=1|2|3|10|20|30|40|50|60'' ''0,'' \<and>
    \<not> startsWith ''a,T=1|2|3|10|20|30|40|50|60'' ''#'' \<and>
    \<not> startsWith ''a,T=1|2|3|10|20|30|40|50|60'' ''-'' \<and>
    indexOf ''a,T=1|2|3|10|20|30|40|50|60'' CHR '','' = Some 1 \<and>
    Some 10 = parseInt16 examplePlatform (slice ''a,T=1|2|3|10|20|30|40|50|60'' 0 1) \<and>
    filteredIds (firstRowParser None ''a,T=1|2|3|10|20|30|40|50|60'') = [] \<and>
    map_of (entities (data (firstRowParser None ''a,T=1|2|3|10|20|30|40|50|60''))) (Some 10)
      = None \<and>
    strictEq examplePlatform (Some 10) (Some 10) \<and>
    keepEntity (filter' (firstRowParser None ''a,T=1|2|3|10|20|30|40|50|60''))
      (rowEntity examplePlatform (Some 10) (drop (1 + 1) ''a,T=1|2|3|10|20|30|40|50|60'')
         (firstRowParser None ''a,T=1|2|3|10|20|30|40|50|60'')) \<and>
    find (\<lambda>prop. startsWith prop ''T='')
        (splitProperties False (drop (1 + 1) ''a,T=1|2|3|10|20|30|40|50|60''))
      = Some (''T='' @ ''1|2|3|10|20|30|40|50|60'') \<and>
    \<lparr>longitude = Some 0, latitude = Some 0, altitude = Some 0,
      roll = None, pitch = None, yaw = None\<rparr>
      = startTransform examplePlatform
          (map_of (scene (currentFrame (firstRowParser None ''a,T=1|2|3|10|20|30|40|50|60'')))
             (Some 10)) \<and>
    sceneAfter (parseLine examplePlatform (firstRowParser None ''a,T=1|2|3|10|20|30|40|50|60''))
      = Some [(Some 10, \<lparr>longitude = Some 31, latitude = Some 42, altitude = Some 3,
                          roll = Some (Some 10), pitch = Some (Some 20), yaw = Some (Some 30)\<rparr>)]) \<and>
   (currentLine (keptParser ''a,T=1||3|4||6|7|8|9'') = ''a,T=1||3|4||6|7|8|9'' \<and>
    \<not> startsWith ''a,T=1||3|4||6|7|8|9'' ''0,'' \<and> \<not> startsWith ''a,T=1||3|4||6|7|8|9'' ''#'' \<and>
    \<not> startsWith ''a,T=1||3|4||6|7|8|9'' ''-'' \<and>
    indexOf ''a,T=1||3|4||6|7|8|9'' CHR '','' = Some 1 \<and>
    Some 10 = parseInt16 examplePlatform (slice ''a,T=1||3|4||6|7|8|9'' 0 1) \<and>
    indexOfNum examplePlatform (filteredIds (keptParser ''a,T=1||3|4||6|7|8|9'')) (Some 10) \<and>
    find (\<lambda>prop. startsWith prop ''T='')
        (splitProperties False (drop (1 + 1) ''a,T=1||3|4||6|7|8|9''))
      = Some (''T='' @ ''1||3|4||6|7|8|9'') \<and>
    splitOn CHR ''|'' ''1||3|4||6|7|8|9'' = [''1'', [], ''3'', ''4'', [], ''6'', ''7'', ''8'', ''9''] \<and>
    \<lparr>longitude = Some 31, latitude = Some 42, altitude = Some 3,
      roll = None, pitch = Some (Some 7), yaw = None\<rparr>
      = startTransform examplePlatform
          (map_of (scene (currentFrame (keptParser ''a,T=1||3|4||6|7|8|9''))) (Some 10)) \<and>
    sceneAfter (parseLine examplePlatform (keptParser ''a,T=1||3|4||6|7|8|9''))
      = Some [(Some 10, \<lparr>longitude = Some 31, latitude = Some 42, altitude = Some 3,
                          roll = Some (Some 4), pitch = Some (Some 7), yaw = Some (Some 6)\<rparr>)])"
proof -
  let ?f = "''a,T=1|2|3|10|20|30|40|50|60''"
  let ?s = "firstRowParser None ?f"
  have f1: "currentLine ?s = ?f" by (simp add: firstRowParser_def)
  have f2: "\<not> startsWith ?f ''0,''" "\<not> startsWith ?f ''#''" "\<not> startsWith ?f ''-''"
    by (simp_all add: startsWith_def)
  have f5: "indexOf ?f CHR '','' = Some 1" by simp
  have f6: "Some 10 = parseInt16 examplePlatform (slice ?f 0 1)" by code_simp
  have f7: "filteredIds ?s = []"
    by (simp add: firstRowParser_def exampleParser_def resetParser_def)
  have f8: "map_of (entities (data ?s)) (Some 10) = None \<and>
    strictEq examplePlatform (Some 10) (Some 10) \<and>
    keepEntity (filter' ?s) (rowEntity examplePlatform (Some 10) (drop (1 + 1) ?f) ?s)"
    by code_simp
  have f9: "find (\<lambda>prop. startsWith prop ''T='') (splitProperties False (drop (1 + 1) ?f))
      = Some (''T='' @ ''1|2|3|10|20|30|40|50|60'')"
    by (simp add: startsWith_def)
  have f10: "splitOn CHR ''|'' ''1|2|3|10|20|30|40|50|60''
     = [''1'', ''2'', ''3'', ''10'', ''20'', ''30'', ''40'', ''50'', ''60'']" by simp
  have f11: "\<lparr>longitude = Some 0, latitude = Some 0, altitude = Some 0,
      roll = None, pitch = None, yaw = None\<rparr>
      = startTransform examplePlatform (map_of (scene (currentFrame ?s)) (Some 10))"
    by code_simp
  have fn: "numAdd examplePlatform (refLong ?s) (toNumber examplePlatform ''1'') = Some 31"
    "numAdd examplePlatform (refLat ?s) (toNumber examplePlatform ''2'') = Some 42"
    "toNumber examplePlatform ''3'' = Some 3" "toNumber examplePlatform ''10'' = Some 10"
    "toNumber examplePlatform ''20'' = Some 20" "toNumber examplePlatform ''30'' = Some 30"
    by code_simp+
  have fsc: "scene (currentFrame ?s) = []"
    by (simp add: firstRowParser_def exampleParser_def resetParser_def newFrame_def)
  from transform_slots[OF f1 f2 f5 f6 disjI2[OF f8] f9 f10 f11]
  have first: "sceneAfter (parseLine examplePlatform ?s)
      = Some [(Some 10, \<lparr>longitude = Some 31, latitude = Some 42, altitude = Some 3,
                          roll = Some (Some 10), pitch = Some (Some 20), yaw = Some (Some 30)\<rparr>)]"
    by (simp add: fn fsc)
  let ?l = "''a,T=1||3|4||6|7|8|9''"
  have h1: "currentLine (keptParser ?l) = ?l" by (simp add: keptParser_def)
  have h2: "\<not> startsWith ?l ''0,''" "\<not> startsWith ?l ''#''" "\<not> startsWith ?l ''-''"
    by (simp_all add: startsWith_def)
  have h5: "indexOf ?l CHR '','' = Some 1" by simp
  have h6: "Some 10 = parseInt16 examplePlatform (slice ?l 0 1)" by code_simp
  have h7: "indexOfNum examplePlatform (filteredIds (keptParser ?l)) (Some 10)" by code_simp
  have h8: "find (\<lambda>prop. startsWith prop ''T='') (splitProperties False (drop (1 + 1) ?l))
     = Some (''T='' @ ''1||3|4||6|7|8|9'')" by (simp add: startsWith_def)
  have h9: "splitOn CHR ''|'' ''1||3|4||6|7|8|9''
     = [''1'', [], ''3'', ''4'', [], ''6'', ''7'', ''8'', ''9'']" by simp
  have h10: "\<lparr>longitude = Some 31, latitude = Some 42, altitude = Some 3,
     roll = None, pitch = Some (Some 7), yaw = None\<rparr>
     = startTransform examplePlatform (map_of (scene (currentFrame (keptParser ?l))) (Some 10))"
    by (simp add: keptParser_def startTransform_def newFrame_def)
  have n: "numAdd examplePlatform (refLong (keptParser ?l)) (toNumber examplePlatform ''1'') = Some 31"
    "toNumber examplePlatform ''3'' = Some 3" "toNumber examplePlatform ''4'' = Some 4"
    "toNumber examplePlatform ''6'' = Some 6"
    by code_simp+
  have sc: "scene (currentFrame (keptParser ?l)) =
    [(Some 10, \<lparr>longitude = Some 31, latitude = Some 42, altitude = Some 3,
                         roll = None, pitch = Some (Some 7), yaw = None\<rparr>)]"
    by (simp add: keptParser_def newFrame_def)
  from transform_slots[OF h1 h2 h5 h6 disjI1[OF h7] h8 h9 h10]
  have later: "sceneAfter (parseLine examplePlatform (keptParser ?l))
     = Some [(Some 10, \<lparr>longitude = Some 31, latitude = Some 42, altitude = Some 3,
                         roll = Some (Some 4), pitch = Some (Some 7), yaw = Some (Some 6)\<rparr>)]"
    by (simp add: n sc)
  from f1 f2 f5 f6 f7 f8 f9 f11 first h1 h2 h5 h6 h7 h8 h9 h10 later show ?thesis by blast
qed

section \<open>Two runs where the code leaves the specification\<close>

text \<open>
  C2: the entity \<^verbatim>\<open>a\<close> is removed (\<^verbatim>\<open>-a\<close>) while the time stamp is 2, and the next
  marker is \<^verbatim>\<open>#3\<close>. The claim has \<^verbatim>\<open>a\<close> in the scene of the frame at 2. The code
  deletes the pending ids from the current frame, which is the frame at 2, before it
  pushes that frame: the frame at 2 is returned without \<^verbatim>\<open>a\<close>. The end of the
  entity's time span is the reference time plus 2 seconds, as claimed.
\<close>

theorem removal_empties_frame_of_removal:
  "map_option (map sceneIds \<circ> frames) (exampleParse removalFile None)
     = Some [(Some 0, [Some 10]), (Some 2, []), (Some 3, [])] \<and>
   map_option (map (end' \<circ> EntityProps.timeSpan \<circ> snd) \<circ> entities) (exampleParse removalFile None)
     = Some [Some 1704067202000]"
  by code_simp

text \<open>
  C5: with the filter \<^verbatim>\<open>["Air"]\<close>, the entity \<^verbatim>\<open>a\<close> is first seen with the types
  \<^verbatim>\<open>Air+FixedWing\<close> and is not stored. Its next row carries no \<^verbatim>\<open>Type\<close>: the entity
  is new again, is judged without types, passes (\<^verbatim>\<open>Untyped\<close> is not in the filter),
  and is stored and put into the scene of the frame at 1.
\<close>

theorem filtered_entity_comes_back:
  "map_option (map fst \<circ> entities) (exampleParse filteredFile (Some [''Air'']))
     = Some [Some 10] \<and>
   map_option (map sceneIds \<circ> frames) (exampleParse filteredFile (Some [''Air'']))
     = Some [(Some 0, []), (Some 1, [Some 10])]"
  by code_simp

section \<open>Two more runs where the code leaves the specification\<close>

text \<open>
  C8: the smoother forces to zero every value below one degree, not every value whose
  magnitude is below one degree. A raw roll of -1.5 rad after a last roll of 0 smooths to
  -0.075 rad, more than four degrees to the left, and both versions return 0 and store 0.
\<close>

theorem left_roll_is_zeroed:
  "simpleSmooth (- 3 / 2) (1 / 20) 0 = (0, 0) \<and>
   simpleSmoothCesium (- 3 / 2) (1 / 20) 0 = (0, 0) \<and>
   (1 / 20) * (- 3 / 2) + (1 - 1 / 20) * 0 = (- 3 / 40 :: real) \<and>
   \<not> \<bar>- 3 / 40 :: real\<bar> < oneDegree"
proof -
  have neg: "(- 3 / 40 :: real) < 0" by simp
  have "(0 :: real) < pi / 180" by simp
  with neg have a: "(- 3 / 40 :: real) < pi / 180" by (rule less_trans)
  have "(0 :: real) < 2 * (pi / 180)" by simp
  with neg have b: "(- 3 / 40 :: real) < 2 * (pi / 180)" by (rule less_trans)
  have "pi / 180 < (4 / 180 :: real)" using pi_less_4 by simp
  also have "\<dots> < 3 / 40" by simp
  finally have c: "\<not> (3 / 40 :: real) < pi / 180" by simp
  from a b c show ?thesis
    by (simp add: simpleSmooth_def simpleSmoothCesium_def oneDegree_def Let_def)
qed

text \<open>
  C4: the file has the frames 0 and 1 and a time span of one second, and is sampled at
  the default rate of one sample per second. The loop samples the entity at 0 s and at
  1 s, which is the end of the span; it then stops with the time stamp 2, the test
  \<^verbatim>\<open>timeStamp > duration\<close> holds as it does after every run of the loop, and the sample
  of the end is appended without the comparison with the last sample: the last two
  samples of the trajectory have the same time.
\<close>

theorem final_sample_repeats_time:
  "map_option (map sampleTimes)
      (Option.bind (exampleParse twoFrameFile None)
        (createSampledTrajectories exampleSamplingPlatform None))
     = Some [(Some 10, [Some 1704067200000, Some 1704067201000, Some 1704067201000])]"
  by code_simp

end
